theory Spec2Isabelle
  imports Complex_Main "HOL-Library.Monad_Syntax"
begin

section \<open>Numbers, typed arrays and the random source\<close>

text \<open>
  JavaScript numbers are modelled as exact reals: rounding of doubles and of the
  32-bit entries of a \<^verbatim>\<open>Float32Array\<close> is not modelled. A computation whose result
  would be \<^verbatim>\<open>NaN\<close> or infinite (reading a typed array out of range and using the
  \<^verbatim>\<open>undefined\<close> in arithmetic, \<^verbatim>\<open>Math.acos\<close> outside \<open>[-1, 1]\<close>,
  \<^verbatim>\<open>Math.sqrt\<close> of a negative number, division by zero) is the value \<open>None\<close>.

  A \<^verbatim>\<open>Float32Array\<close> is a list of reals. Writing beyond its end is ignored by
  JavaScript, which is what \<open>xs[i := v]\<close> does. \<^verbatim>\<open>Math.random()\<close> is an explicit
  source \<open>rnd\<close> of draws and a cursor \<open>k\<close> of the next draw to hand out.
\<close>

datatype error = RangeError | TypeError | NonFinite

definition arr_get :: "real list \<Rightarrow> nat \<Rightarrow> real option" where
  "arr_get xs i = (if i < length xs then Some (xs ! i) else None)"

definition Float32Array_new :: "int \<Rightarrow> error + real list" where
  "Float32Array_new n = (if n < 0 then Inl RangeError else Inr (replicate (nat n) 0))"

definition Math_acos :: "real \<Rightarrow> real option" where
  "Math_acos x = (if -1 \<le> x \<and> x \<le> 1 then Some (arccos x) else None)"

definition Math_sqrt :: "real \<Rightarrow> real option" where
  "Math_sqrt x = (if 0 \<le> x then Some (sqrt x) else None)"

definition js_div :: "real \<Rightarrow> real \<Rightarrow> real option" where
  "js_div x y = (if y = 0 then None else Some (x / y))"

text \<open>\<^verbatim>\<open>THREE.MathUtils.lerp\<close> of the three.js library: \<^verbatim>\<open>(1 - t) * x + t * y\<close>.\<close>

definition lerp :: "real \<Rightarrow> real \<Rightarrow> real \<Rightarrow> real" where
  "lerp x y t = (1 - t) * x + t * y"

section \<open>The component's data\<close>

text \<open>A \<^verbatim>\<open>THREE.Color\<close>: the fields \<^verbatim>\<open>r\<close>, \<^verbatim>\<open>g\<close>, \<^verbatim>\<open>b\<close>.\<close>

record color =
  col_r :: real
  col_g :: real
  col_b :: real

text \<open>What \<^verbatim>\<open>audioService.current.getFrequencyData()\<close> returns, as far as the frame reads it.\<close>

record audio_data =
  bass :: real
  treble :: real

text \<open>
  The refs of \<^verbatim>\<open>ParticleSystem\<close>. The position attribute of the core geometry is
  built on the array held by \<^verbatim>\<open>currentPositionsRef\<close> in the render that allocates it,
  so the frame's \<^verbatim>\<open>positions\<close> and \<^verbatim>\<open>currentPositionsRef.current\<close> are one array;
  \<open>colorAttr\<close> is the array of the geometry's color attribute. The target array is
  always a freshly allocated one and shares nothing with the others.
\<close>

record particle_system =
  pointsRef :: bool
  targetPositionsRef :: "real list option"
  currentPositionsRef :: "real list option"
  velocitiesRef :: "real list option"
  colorAttr :: "real list"

section \<open>The animation loop\<close>

text \<open>
  One pass of the body of the particle loop of \<^verbatim>\<open>useFrame\<close>, for particle \<open>i\<close>,
  on the arrays \<open>(positions, vels, colors)\<close>; \<open>rnd k\<close>, \<open>rnd (k + 1)\<close> and
  \<open>rnd (k + 2)\<close> are the three draws of \<^verbatim>\<open>Math.random()\<close>.
\<close>

definition particle_update ::
  "real list \<Rightarrow> real \<Rightarrow> color \<Rightarrow> color \<Rightarrow> (nat \<Rightarrow> real) \<Rightarrow> nat \<Rightarrow> nat \<Rightarrow>
   real list \<times> real list \<times> real list \<Rightarrow> (real list \<times> real list \<times> real list) option" where
  "particle_update targets audioTreble threeColorBase colorHot rnd k i arrs =
     (case arrs of (positions, vels, colors) \<Rightarrow>
      let attraction = 0.03;
          damping = 0.92;
          noiseAmt = 0.02 + (audioTreble * 0.1);
          i3 = i * 3
      in do {
        tx \<leftarrow> arr_get targets i3;
        ty \<leftarrow> arr_get targets (i3 + 1);
        tz \<leftarrow> arr_get targets (i3 + 2);
        px \<leftarrow> arr_get positions i3;
        py \<leftarrow> arr_get positions (i3 + 1);
        pz \<leftarrow> arr_get positions (i3 + 2);
        vx \<leftarrow> arr_get vels i3;
        vy \<leftarrow> arr_get vels (i3 + 1);
        vz \<leftarrow> arr_get vels (i3 + 2);
        let ax = (tx - px) * attraction;
            ay = (ty - py) * attraction;
            az = (tz - pz) * attraction;
            nx = (rnd k - 0.5) * noiseAmt;
            ny = (rnd (k + 1) - 0.5) * noiseAmt;
            nz = (rnd (k + 2) - 0.5) * noiseAmt;
            vels = vels[i3 := vx + (ax + nx)];
            vels = vels[i3 + 1 := vy + (ay + ny)];
            vels = vels[i3 + 2 := vz + (az + nz)];
            vels = vels[i3 := vels ! i3 * damping];
            vels = vels[i3 + 1 := vels ! (i3 + 1) * damping];
            vels = vels[i3 + 2 := vels ! (i3 + 2) * damping];
            positions = positions[i3 := px + vels ! i3];
            positions = positions[i3 + 1 := py + vels ! (i3 + 1)];
            positions = positions[i3 + 2 := pz + vels ! (i3 + 2)];
            speed = sqrt ((vels ! i3)\<^sup>2 + (vels ! (i3 + 1))\<^sup>2 + (vels ! (i3 + 2))\<^sup>2);
            t = min ((speed * 3.0) + (audioTreble * 0.5)) 1;
            colors = colors[i3 := lerp (col_r threeColorBase) (col_r colorHot) t];
            colors = colors[i3 + 1 := lerp (col_g threeColorBase) (col_g colorHot) t];
            colors = colors[i3 + 2 := lerp (col_b threeColorBase) (col_b colorHot) t]
        in Some (positions, vels, colors)
      })"

text \<open>The loop \<^verbatim>\<open>for (let i = 0; i < count; i++)\<close>, entered at \<open>i\<close> with cursor \<open>k\<close>.\<close>

function physics_loop ::
  "real list \<Rightarrow> real \<Rightarrow> color \<Rightarrow> color \<Rightarrow> (nat \<Rightarrow> real) \<Rightarrow> int \<Rightarrow> nat \<Rightarrow> nat \<Rightarrow>
   real list \<times> real list \<times> real list \<Rightarrow> ((real list \<times> real list \<times> real list) \<times> nat) option" where
  "physics_loop targets audioTreble threeColorBase colorHot rnd count i k arrs =
     (if int i < count then
        (case particle_update targets audioTreble threeColorBase colorHot rnd k i arrs of
           None \<Rightarrow> None
         | Some arrs' \<Rightarrow>
             physics_loop targets audioTreble threeColorBase colorHot rnd count (Suc i) (k + 3) arrs')
      else Some (arrs, k))"
  by pat_completeness auto
termination
  by (relation "measure (\<lambda>(targets, audioTreble, threeColorBase, colorHot, rnd, count, i, k, arrs).
        nat (count - int i))") auto

text \<open>
  The frame callback, restricted to the particle buffers (the rotation and scale of the
  two point clouds are not modelled). \<open>audioService\<close> is \<open>None\<close> when
  \<^verbatim>\<open>audioService.current\<close> is null, and otherwise holds what
  \<^verbatim>\<open>getFrequencyData()\<close> returns in this frame; \<open>audioTreble_of\<close> is the
  value \<^verbatim>\<open>audioTreble\<close> has after the audio block, 0 without a service. The
  result \<open>None\<close> stands for a frame that stored a \<^verbatim>\<open>NaN\<close>.
\<close>

definition audioTreble_of :: "audio_data option \<Rightarrow> real" where
  "audioTreble_of audioService =
     (case audioService of None \<Rightarrow> 0 | Some audioData \<Rightarrow> treble audioData)"

definition useFrame ::
  "audio_data option \<Rightarrow> color \<Rightarrow> color \<Rightarrow> int \<Rightarrow> (nat \<Rightarrow> real) \<Rightarrow> nat \<Rightarrow> particle_system \<Rightarrow>
   (particle_system \<times> nat) option" where
  "useFrame audioService threeColorBase colorHot count rnd k s =
     (if \<not> pointsRef s \<or> currentPositionsRef s = None \<or> targetPositionsRef s = None
         \<or> velocitiesRef s = None
      then Some (s, k)
      else
        let audioTreble = audioTreble_of audioService;
            positions = the (currentPositionsRef s);
            colors = colorAttr s;
            targets = the (targetPositionsRef s);
            vels = the (velocitiesRef s)
        in (case physics_loop targets audioTreble threeColorBase colorHot rnd count 0 k
                   (positions, vels, colors) of
              None \<Rightarrow> None
            | Some ((positions', vels', colors'), k') \<Rightarrow>
                Some (s\<lparr>currentPositionsRef := Some positions', velocitiesRef := Some vels',
                         colorAttr := colors'\<rparr>, k')))"

section \<open>Shape sampling\<close>

text \<open>
  The enum \<^verbatim>\<open>ParticleShape\<close> is declared outside the files at hand; its members are
  the ones the sampler and the voice service name.
\<close>

datatype ParticleShape =
  SPHERE | CUBE | TORUS | GALAXY | DNA | SATURN | PYRAMID | BIG_BANG | TEXT | NUMBER

text \<open>
  A JavaScript string is the list of its UTF-16 code units.
  \<^verbatim>\<open>String.fromCharCode(n)\<close> is the one-unit string of \<open>n\<close> modulo \<open>2\<^sup>1\<^sup>6\<close>, and
  \<^verbatim>\<open>String(n)\<close> and \<^verbatim>\<open>n.toString()\<close> of an integer follow
  \<^verbatim>\<open>Number::toString\<close>: the decimal numeral up to 21 digits, and from \<open>10\<^sup>2\<^sup>1\<close>
  the exponent notation, the significant digits (trailing zeros stripped) with a point
  after the first, then \<^verbatim>\<open>e+\<close> and the exponent; a negative integer has a leading
  minus sign. The digits are those of the exact integer.
\<close>

type_synonym js_string = "nat list"

definition String_fromCharCode :: "int \<Rightarrow> js_string" where
  "String_fromCharCode n = [nat (n mod 65536)]"

fun decimal :: "nat \<Rightarrow> string" where
  "decimal n = (if n < 10 then [char_of (48 + n)] else decimal (n div 10) @ [char_of (48 + n mod 10)])"

fun strip_zeros :: "nat \<Rightarrow> nat" where
  "strip_zeros n = (if n = 0 \<or> n mod 10 \<noteq> 0 then n else strip_zeros (n div 10))"

definition Number_toString :: "nat \<Rightarrow> string" where
  "Number_toString v =
     (let digits = decimal v;
          n = length digits
      in if n \<le> 21 then digits
         else (case decimal (strip_zeros v) of
                 [] \<Rightarrow> []
               | d # ds \<Rightarrow> (if ds = [] then [d] else d # CHR ''.'' # ds) @ ''e+'' @ decimal (n - 1)))"

definition String_of_int :: "int \<Rightarrow> string" where
  "String_of_int n =
     (if n < 0 then CHR ''-'' # Number_toString (nat (- n)) else Number_toString (nat n))"

text \<open>
  The browser's canvas: whether \<^verbatim>\<open>getContext('2d')\<close> gives a context, and the RGBA
  bytes \<^verbatim>\<open>getImageData\<close> returns once the text has been drawn.
\<close>

record canvas =
  ctx_available :: bool
  getImageData :: "js_string \<Rightarrow> nat list"

definition canvas_size :: nat where
  "canvas_size = 100"

text \<open>
  The scan for pixels: \<open>y\<close> in the outer loop, \<open>x\<close> in the inner one, a pixel kept
  when its red channel is above 128 (a read beyond the data is \<^verbatim>\<open>undefined\<close>, and the
  comparison is then false).
\<close>

definition scan_pixels :: "nat list \<Rightarrow> (nat \<times> nat) list" where
  "scan_pixels data =
     [(x, y). y \<leftarrow> [0..<canvas_size], x \<leftarrow> [0..<canvas_size],
        (let j = (y * canvas_size + x) * 4 in j < length data \<and> data ! j > 128)]"

text \<open>The loop that maps pixels to particles, entered at \<open>i\<close>.\<close>

function text_loop ::
  "(nat \<times> nat) list \<Rightarrow> int \<Rightarrow> real \<Rightarrow> (nat \<Rightarrow> real) \<Rightarrow> nat \<Rightarrow> nat \<Rightarrow> real list \<Rightarrow>
   error + (real list \<times> nat)" where
  "text_loop validPixels pCount radius rnd i k positions =
     (if int i < pCount then
        (let j = \<lfloor>rnd k * real (length validPixels)\<rfloor>
         in if j < 0 \<or> int (length validPixels) \<le> j then Inl TypeError
            else
              let pixel = validPixels ! nat j;
                  x = (real (fst pixel) / real canvas_size - 0.5) * radius * 1.5;
                  y = - (real (snd pixel) / real canvas_size - 0.5) * radius * 1.5;
                  z = (rnd (k + 1) - 0.5) * radius * 0.2
              in text_loop validPixels pCount radius rnd (Suc i) (k + 2)
                   (positions[i * 3 := x, i * 3 + 1 := y, i * 3 + 2 := z]))
      else Inr (positions, k))"
  by pat_completeness auto
termination
  by (relation "measure (\<lambda>(validPixels, pCount, radius, rnd, i, k, positions).
        nat (pCount - int i))") auto

definition generateTextPositions ::
  "canvas \<Rightarrow> js_string \<Rightarrow> int \<Rightarrow> real \<Rightarrow> (nat \<Rightarrow> real) \<Rightarrow> nat \<Rightarrow> error + (real list \<times> nat)" where
  "generateTextPositions env text pCount radius rnd k =
     (if \<not> ctx_available env then
        (case Float32Array_new (pCount * 3) of
           Inl e \<Rightarrow> Inl e
         | Inr positions \<Rightarrow> Inr (positions, k))
      else
        let data = getImageData env text;
            validPixels = scan_pixels data
        in (case Float32Array_new (pCount * 3) of
              Inl e \<Rightarrow> Inl e
            | Inr positions \<Rightarrow>
                if length validPixels = 0 then Inr (positions, k)
                else text_loop validPixels pCount radius rnd 0 k positions))"

text \<open>The folding of the three draws of the pyramid case, and the fourth coefficient.\<close>

definition pyramid_coeffs :: "real \<Rightarrow> real \<Rightarrow> real \<Rightarrow> real \<times> real \<times> real \<times> real" where
  "pyramid_coeffs a0 b0 c0 =
     (let (a, b) = (if a0 + b0 > 1 then (1 - a0, 1 - b0) else (a0, b0));
          (b, c) = (if b + c0 > 1 then (1 - b, 1 - c0) else (b, c0));
          (a, b, c) = (if a + b + c > 1 then (1 - a, 1 - b, 1 - c) else (a, b, c));
          d = 1 - a - b - c
      in (a, b, c, d))"

text \<open>
  The body of the \<^verbatim>\<open>switch\<close> for particle \<open>i\<close>: the point and the cursor after the
  draws, or \<open>None\<close> when a coordinate is not a finite number. The text types never
  reach the switch; like any other value they would take the default branch.
\<close>

definition big_bang_point :: "real \<Rightarrow> (nat \<Rightarrow> real) \<Rightarrow> nat \<Rightarrow> ((real \<times> real \<times> real) \<times> nat) option" where
  "big_bang_point radius rnd k =
     do {
       let r = rnd k * radius * 2;
       let theta = rnd (k + 1) * pi * 2;
       phi \<leftarrow> Math_acos (2 * rnd (k + 2) - 1);
       Some ((r * sin phi * cos theta, r * sin phi * sin theta, r * cos phi), k + 3)
     }"

definition shape_point ::
  "ParticleShape \<Rightarrow> nat \<Rightarrow> int \<Rightarrow> real \<Rightarrow> (nat \<Rightarrow> real) \<Rightarrow> nat \<Rightarrow>
   ((real \<times> real \<times> real) \<times> nat) option" where
  "shape_point type i pCount radius rnd k =
     (case type of
        SPHERE \<Rightarrow>
          do {
            q \<leftarrow> js_div (2 * real i) (real_of_int pCount);
            phi \<leftarrow> Math_acos (-1 + q);
            w \<leftarrow> Math_sqrt (real_of_int pCount * pi);
            let theta = w * phi;
            Some ((radius * cos theta * sin phi, radius * sin theta * sin phi, radius * cos phi), k)
          }
      | CUBE \<Rightarrow>
          Some (((rnd k - 0.5) * radius * 1.5,
                 (rnd (k + 1) - 0.5) * radius * 1.5,
                 (rnd (k + 2) - 0.5) * radius * 1.5), k + 3)
      | TORUS \<Rightarrow>
          (let u = rnd k * pi * 2;
               v = rnd (k + 1) * pi * 2;
               tubeRadius = radius * 0.3
           in Some (((radius + tubeRadius * cos v) * cos u,
                     (radius + tubeRadius * cos v) * sin u,
                     tubeRadius * sin v), k + 2))
      | GALAXY \<Rightarrow>
          do {
            q \<leftarrow> js_div (real i) (real_of_int pCount);
            let armCount = 3;
            let spin = q * armCount * pi * 2;
            let r = q * radius;
            let randomOffset = (rnd k - 0.5) * (radius * 0.2);
            Some ((r * cos spin + randomOffset,
                   (rnd (k + 1) - 0.5) * (r * 0.2),
                   r * sin spin + randomOffset), k + 2)
          }
      | DNA \<Rightarrow>
          do {
            q \<leftarrow> js_div (real i) (real_of_int pCount);
            let strandIdx = i mod 2;
            let t = q * pi * 10;
            let height = q * radius * 2.5 - radius * 1.25;
            let r = radius * 0.5;
            let offset = real strandIdx * pi;
            Some ((r * cos (t + offset) + (rnd k - 0.5),
                   height,
                   r * sin (t + offset) + (rnd (k + 1) - 0.5)), k + 2)
          }
      | SATURN \<Rightarrow>
          (if real i < real_of_int pCount * 0.7 then
             do {
               q \<leftarrow> js_div (2 * real i) (real_of_int pCount * 0.7);
               phi \<leftarrow> Math_acos (-1 + q);
               w \<leftarrow> Math_sqrt ((real_of_int pCount * 0.7) * pi);
               let theta = w * phi;
               let r = radius * 0.6;
               Some ((r * cos theta * sin phi, r * sin theta * sin phi, r * cos phi), k)
             }
           else
             do {
               let theta = rnd k * pi * 2;
               let rMin = radius * 0.8;
               let rMax = radius * 1.5;
               w \<leftarrow> Math_sqrt (rnd (k + 1));
               let r = w * (rMax - rMin) + rMin;
               Some ((r * cos theta, (rnd (k + 2) - 0.5) * 0.2, r * sin theta), k + 3)
             })
      | PYRAMID \<Rightarrow>
          (case pyramid_coeffs (rnd k) (rnd (k + 1)) (rnd (k + 2)) of
             (a, b, c, d) \<Rightarrow>
               let s = radius * 1.5
               in Some ((a * s + b * (- s) + c * (- s) + d * s,
                         a * s + b * (- s) + c * s + d * (- s),
                         a * s + b * s + c * (- s) + d * (- s)), k + 3))
      | _ \<Rightarrow> big_bang_point radius rnd k)"

text \<open>The loop over the particles, entered at \<open>i\<close>.\<close>

function shape_loop ::
  "ParticleShape \<Rightarrow> int \<Rightarrow> real \<Rightarrow> (nat \<Rightarrow> real) \<Rightarrow> nat \<Rightarrow> nat \<Rightarrow> real list \<Rightarrow>
   error + (real list \<times> nat)" where
  "shape_loop type pCount radius rnd i k positions =
     (if int i < pCount then
        (case shape_point type i pCount radius rnd k of
           None \<Rightarrow> Inl NonFinite
         | Some ((x, y, z), k') \<Rightarrow>
             shape_loop type pCount radius rnd (Suc i) k'
               (positions[i * 3 := x, i * 3 + 1 := y, i * 3 + 2 := z]))
      else Inr (positions, k))"
  by pat_completeness auto
termination
  by (relation "measure (\<lambda>(type, pCount, radius, rnd, i, k, positions). nat (pCount - int i))")
    auto

text \<open>
  \<^verbatim>\<open>generateTargetPositions\<close>; \<open>charIndex\<close> and \<open>numIndex\<close> are the props it closes
  over. A result \<open>Inl NonFinite\<close> stands for an array that holds a coordinate that is
  not a finite number.
\<close>

definition generateTargetPositions ::
  "canvas \<Rightarrow> int \<Rightarrow> int \<Rightarrow> ParticleShape \<Rightarrow> int \<Rightarrow> real \<Rightarrow> (nat \<Rightarrow> real) \<Rightarrow> nat \<Rightarrow>
   error + (real list \<times> nat)" where
  "generateTargetPositions env charIndex numIndex type pCount radius rnd k =
     (if type = TEXT then
        (let char = String_fromCharCode (65 + charIndex)
         in generateTextPositions env char pCount radius rnd k)
      else if type = NUMBER then
        generateTextPositions env (map of_char (String_of_int numIndex)) pCount radius rnd k
      else
        (case Float32Array_new (pCount * 3) of
           Inl e \<Rightarrow> Inl e
         | Inr positions \<Rightarrow> shape_loop type pCount radius rnd 0 k positions))"

section \<open>Allocation and retargeting\<close>

text \<open>
  The props of the component that the buffers depend on. \<open>threeColorBase\<close> is the
  \<^verbatim>\<open>THREE.Color\<close> made from the prop \<^verbatim>\<open>color\<close>.
\<close>

record props =
  shape :: ParticleShape
  threeColorBase :: color
  particleCount :: int
  charIndex :: int
  numIndex :: int

text \<open>
  The memo commented \<^verbatim>\<open>Initialization\<close>, which runs in the first render and in every
  render in which \<^verbatim>\<open>count\<close> has changed. The sampler's radius is its default, 10.
\<close>

definition initialization ::
  "canvas \<Rightarrow> props \<Rightarrow> (nat \<Rightarrow> real) \<Rightarrow> nat \<Rightarrow> particle_system \<Rightarrow> error + (particle_system \<times> nat)" where
  "initialization env p rnd k s =
     (let count = particleCount p
      in case generateTargetPositions env (charIndex p) (numIndex p) BIG_BANG count 10 rnd k of
           Inl e \<Rightarrow> Inl e
         | Inr (current, k1) \<Rightarrow>
             (case Float32Array_new (count * 3) of
                Inl e \<Rightarrow> Inl e
              | Inr velocities \<Rightarrow>
                  (case generateTargetPositions env (charIndex p) (numIndex p) (shape p) count 10 rnd k1 of
                     Inl e \<Rightarrow> Inl e
                   | Inr (target, k2) \<Rightarrow>
                       Inr (s\<lparr>currentPositionsRef := Some current,
                               velocitiesRef := Some (map (\<lambda>_. 0) velocities),
                               targetPositionsRef := Some target\<rparr>, k2))))"

text \<open>The loop that fills the color array with the base color, entered at \<open>i\<close>.\<close>

function color_loop :: "color \<Rightarrow> int \<Rightarrow> nat \<Rightarrow> real list \<Rightarrow> real list" where
  "color_loop base count i colors =
     (if int i < count then
        color_loop base count (Suc i)
          (colors[i * 3 := col_r base, i * 3 + 1 := col_g base, i * 3 + 2 := col_b base])
      else colors)"
  by pat_completeness auto
termination
  by (relation "measure (\<lambda>(base, count, i, colors). nat (count - int i))") auto

text \<open>
  The memo commented \<^verbatim>\<open>Core Geometry Setup\<close>, with the same dependency
  \<^verbatim>\<open>[count]\<close>: the position attribute is the array of \<^verbatim>\<open>currentPositionsRef\<close>,
  the color attribute a new array.
\<close>

definition core_geometry_setup :: "props \<Rightarrow> particle_system \<Rightarrow> error + particle_system" where
  "core_geometry_setup p s =
     (let count = particleCount p
      in case Float32Array_new (count * 3) of
           Inl e \<Rightarrow> Inl e
         | Inr colors \<Rightarrow> Inr (s\<lparr>colorAttr := color_loop (threeColorBase p) count 0 colors\<rparr>))"

text \<open>What a render does to the buffers when \<^verbatim>\<open>particleCount\<close> has changed: both memos.\<close>

definition resize ::
  "canvas \<Rightarrow> props \<Rightarrow> (nat \<Rightarrow> real) \<Rightarrow> nat \<Rightarrow> particle_system \<Rightarrow> error + (particle_system \<times> nat)" where
  "resize env p rnd k s =
     (case initialization env p rnd k s of
        Inl e \<Rightarrow> Inl e
      | Inr (s1, k1) \<Rightarrow>
          (case core_geometry_setup p s1 of
             Inl e \<Rightarrow> Inl e
           | Inr s2 \<Rightarrow> Inr (s2, k1)))"

text \<open>
  The effect commented \<^verbatim>\<open>Shape Update Effect\<close>, which runs after a render in which
  \<^verbatim>\<open>shape\<close>, \<^verbatim>\<open>count\<close>, \<^verbatim>\<open>charIndex\<close> or \<^verbatim>\<open>numIndex\<close> has changed.
\<close>

definition shape_update_effect ::
  "canvas \<Rightarrow> props \<Rightarrow> (nat \<Rightarrow> real) \<Rightarrow> nat \<Rightarrow> particle_system \<Rightarrow> error + (particle_system \<times> nat)" where
  "shape_update_effect env p rnd k s =
     (case generateTargetPositions env (charIndex p) (numIndex p) (shape p) (particleCount p) 10 rnd k of
        Inl e \<Rightarrow> Inl e
      | Inr (target, k') \<Rightarrow> Inr (s\<lparr>targetPositionsRef := Some target\<rparr>, k'))"

section \<open>Letter and number commands of the voice service\<close>





section \<open>Notions used in the statements\<close>

text \<open>Every draw of \<^verbatim>\<open>Math.random()\<close> lies in \<open>[0, 1)\<close>.\<close>

definition unit_draws :: "(nat \<Rightarrow> real) \<Rightarrow> bool" where
  "unit_draws rnd = (\<forall>j. 0 \<le> rnd j \<and> rnd j < 1)"

text \<open>
  The velocity component the integrator is expected to store, from the target \<open>t\<close>,
  the position \<open>p\<close>, the old velocity \<open>v\<close> and the draw \<open>u\<close>: acceleration and
  jitter are added first, the sum is damped.
\<close>

definition new_vel :: "real \<Rightarrow> real \<Rightarrow> real \<Rightarrow> real \<Rightarrow> real \<Rightarrow> real" where
  "new_vel audioTreble t p v u =
     (v + ((t - p) * 0.03 + (u - 0.5) * (0.02 + audioTreble * 0.1))) * 0.92"

text \<open>The heat factor of particle \<open>i\<close>, from the velocities the frame has stored.\<close>

definition heat :: "real \<Rightarrow> real list \<Rightarrow> nat \<Rightarrow> real" where
  "heat audioTreble vels i =
     min (sqrt ((vels ! (i * 3))\<^sup>2 + (vels ! (i * 3 + 1))\<^sup>2 + (vels ! (i * 3 + 2))\<^sup>2) * 3
          + audioTreble * 0.5) 1"

definition channel :: "color \<Rightarrow> nat \<Rightarrow> real" where
  "channel c a = (if a = 0 then col_r c else if a = 1 then col_g c else col_b c)"

text \<open>The squared Euclidean distance of particle \<open>i\<close> from its target, and the distance.\<close>

definition sq_distance :: "real list \<Rightarrow> real list \<Rightarrow> nat \<Rightarrow> real" where
  "sq_distance targets positions i =
     (positions ! (i * 3) - targets ! (i * 3))\<^sup>2
     + (positions ! (i * 3 + 1) - targets ! (i * 3 + 1))\<^sup>2
     + (positions ! (i * 3 + 2) - targets ! (i * 3 + 2))\<^sup>2"

definition distance :: "real list \<Rightarrow> real list \<Rightarrow> nat \<Rightarrow> real" where
  "distance targets positions i = sqrt (sq_distance targets positions i)"

text \<open>
  A quadratic energy of one axis, in the offset \<open>e\<close> from the target and the velocity
  \<open>v\<close>, and the energy of particle \<open>i\<close>: the sum over its three axes.
\<close>

definition axis_energy :: "real \<Rightarrow> real \<Rightarrow> real" where
  "axis_energy e v = 69 * e\<^sup>2 + 131 * e * v + 2300 * v\<^sup>2"

definition energy :: "real list \<Rightarrow> real list \<Rightarrow> real list \<Rightarrow> nat \<Rightarrow> real" where
  "energy targets positions vels i =
     axis_energy (positions ! (i * 3) - targets ! (i * 3)) (vels ! (i * 3))
     + axis_energy (positions ! (i * 3 + 1) - targets ! (i * 3 + 1)) (vels ! (i * 3 + 1))
     + axis_energy (positions ! (i * 3 + 2) - targets ! (i * 3 + 2)) (vels ! (i * 3 + 2))"

text \<open>\<open>n\<close> consecutive frames with the same props and the same audio data.\<close>

fun run_frames ::
  "nat \<Rightarrow> audio_data option \<Rightarrow> color \<Rightarrow> color \<Rightarrow> int \<Rightarrow> (nat \<Rightarrow> real) \<Rightarrow> nat \<Rightarrow> particle_system \<Rightarrow>
   (particle_system \<times> nat) option" where
  "run_frames 0 audioService base colorHot count rnd k s = Some (s, k)"
| "run_frames (Suc n) audioService base colorHot count rnd k s =
     (case useFrame audioService base colorHot count rnd k s of
        None \<Rightarrow> None
      | Some (s', k') \<Rightarrow> run_frames n audioService base colorHot count rnd k' s')"

section \<open>The particle loop, index by index\<close>

lemma particle_update_in_range:
  assumes "i * 3 + 2 < length targets" "i * 3 + 2 < length positions" "i * 3 + 2 < length vels"
  shows "\<exists>P V C. particle_update targets tr cb ch rnd k i (positions, vels, colors) = Some (P, V, C)
     \<and> length P = length positions \<and> length V = length vels \<and> length C = length colors
     \<and> (\<forall>j. j div 3 \<noteq> i \<longrightarrow> P ! j = positions ! j \<and> V ! j = vels ! j \<and> C ! j = colors ! j)
     \<and> (\<forall>a<3. V ! (i * 3 + a) = new_vel tr (targets ! (i * 3 + a)) (positions ! (i * 3 + a)) (vels ! (i * 3 + a)) (rnd (k + a))
            \<and> P ! (i * 3 + a) = positions ! (i * 3 + a) + V ! (i * 3 + a)
            \<and> (i * 3 + 2 < length colors \<longrightarrow> C ! (i * 3 + a) = lerp (channel cb a) (channel ch a) (heat tr V i)))"
proof -
  have three: "\<And>a::nat. a < 3 \<Longrightarrow> a = 0 \<or> a = 1 \<or> a = 2" by auto
  show ?thesis
    using assms
    apply (simp add: particle_update_def arr_get_def Let_def)
    apply (intro conjI allI impI)
    subgoal for a using three[of a] by (auto simp: new_vel_def)
    subgoal for a using three[of a] by (auto simp: new_vel_def)
    subgoal for a using three[of a] by (auto simp: new_vel_def heat_def channel_def)
    done
qed


lemma physics_loop_result:
  assumes "nat count * 3 \<le> length targets" "nat count * 3 \<le> length positions"
    "nat count * 3 \<le> length vels"
  shows "\<exists>P V C. physics_loop targets tr cb ch rnd count i k (positions, vels, colors)
        = Some ((P, V, C), k + 3 * (nat count - i))
     \<and> length P = length positions \<and> length V = length vels \<and> length C = length colors
     \<and> (\<forall>j. j div 3 < i \<or> nat count \<le> j div 3 \<longrightarrow>
            P ! j = positions ! j \<and> V ! j = vels ! j \<and> C ! j = colors ! j)
     \<and> (\<forall>m a. i \<le> m \<and> int m < count \<and> a < 3 \<longrightarrow>
            V ! (m * 3 + a) = new_vel tr (targets ! (m * 3 + a)) (positions ! (m * 3 + a))
                (vels ! (m * 3 + a)) (rnd (k + 3 * (m - i) + a))
          \<and> P ! (m * 3 + a) = positions ! (m * 3 + a) + V ! (m * 3 + a)
          \<and> (nat count * 3 \<le> length colors \<longrightarrow>
                C ! (m * 3 + a) = lerp (channel cb a) (channel ch a) (heat tr V m)))"
  using assms
proof (induction targets tr cb ch rnd count i k "(positions, vels, colors)"
    arbitrary: positions vels colors rule: physics_loop.induct)
  case (1 targets tr cb ch rnd count i k)
  show ?case
  proof (cases "int i < count")
    case False
    then have "nat count - i = 0" by simp
    with False show ?thesis
      by (subst physics_loop.simps) auto
  next
    case True
    then have inr: "i * 3 + 2 < length targets" "i * 3 + 2 < length positions"
      "i * 3 + 2 < length vels"
      using "1.prems" by linarith+
    from particle_update_in_range[OF inr, of tr cb ch rnd k colors]
    obtain P1 V1 C1 where
      pu: "particle_update targets tr cb ch rnd k i (positions, vels, colors) = Some (P1, V1, C1)"
      and len1: "length P1 = length positions" "length V1 = length vels" "length C1 = length colors"
      and other1: "\<And>j. j div 3 \<noteq> i \<Longrightarrow> P1 ! j = positions ! j \<and> V1 ! j = vels ! j \<and> C1 ! j = colors ! j"
      and here1: "\<And>a. a < 3 \<Longrightarrow> V1 ! (i * 3 + a) = new_vel tr (targets ! (i * 3 + a)) (positions ! (i * 3 + a)) (vels ! (i * 3 + a)) (rnd (k + a))
            \<and> P1 ! (i * 3 + a) = positions ! (i * 3 + a) + V1 ! (i * 3 + a)
            \<and> (i * 3 + 2 < length colors \<longrightarrow> C1 ! (i * 3 + a) = lerp (channel cb a) (channel ch a) (heat tr V1 i))"
      by blast
    have prems1: "nat count * 3 \<le> length targets" "nat count * 3 \<le> length P1"
      "nat count * 3 \<le> length V1"
      using "1.prems" len1 by simp_all
    from "1.hyps"[OF True pu prems1]
    obtain P V C where
      lp: "physics_loop targets tr cb ch rnd count (Suc i) (k + 3) (P1, V1, C1)
            = Some ((P, V, C), k + 3 + 3 * (nat count - Suc i))"
      and len: "length P = length P1" "length V = length V1" "length C = length C1"
      and other: "\<And>j. j div 3 < Suc i \<or> nat count \<le> j div 3 \<Longrightarrow>
            P ! j = P1 ! j \<and> V ! j = V1 ! j \<and> C ! j = C1 ! j"
      and here: "\<And>m a. Suc i \<le> m \<Longrightarrow> int m < count \<Longrightarrow> a < 3 \<Longrightarrow>
            V ! (m * 3 + a) = new_vel tr (targets ! (m * 3 + a)) (P1 ! (m * 3 + a))
                (V1 ! (m * 3 + a)) (rnd (k + 3 + 3 * (m - Suc i) + a))
          \<and> P ! (m * 3 + a) = P1 ! (m * 3 + a) + V ! (m * 3 + a)
          \<and> (nat count * 3 \<le> length C1 \<longrightarrow>
                C ! (m * 3 + a) = lerp (channel cb a) (channel ch a) (heat tr V m))"
      by blast
    have eq: "physics_loop targets tr cb ch rnd count i k (positions, vels, colors)
        = Some ((P, V, C), k + 3 * (nat count - i))"
    proof -
      have "k + 3 + 3 * (nat count - Suc i) = k + 3 * (nat count - i)"
        using True by linarith
      then show ?thesis
        using True pu lp by (subst physics_loop.simps) simp
    qed
    have divs: "\<And>m a::nat. a < 3 \<Longrightarrow> (m * 3 + a) div 3 = m" by simp
    have unch: "\<And>j. j div 3 < i \<or> nat count \<le> j div 3 \<Longrightarrow>
            P ! j = positions ! j \<and> V ! j = vels ! j \<and> C ! j = colors ! j"
    proof -
      fix j assume j: "j div 3 < i \<or> nat count \<le> j div 3"
      then have "j div 3 \<noteq> i" using True by linarith
      moreover from j have "j div 3 < Suc i \<or> nat count \<le> j div 3" by linarith
      ultimately show "P ! j = positions ! j \<and> V ! j = vels ! j \<and> C ! j = colors ! j"
        using other[of j] other1[of j] by simp
    qed
    have heat_i: "heat tr V i = heat tr V1 i"
    proof -
      have "V ! (i * 3) = V1 ! (i * 3)" "V ! (i * 3 + 1) = V1 ! (i * 3 + 1)"
        "V ! (i * 3 + 2) = V1 ! (i * 3 + 2)"
        using other[of "i * 3 + 0"] other[of "i * 3 + 1"] other[of "i * 3 + 2"]
          divs[of 0 i] divs[of 1 i] divs[of 2 i] by simp_all
      then show ?thesis by (simp add: heat_def)
    qed
    have upd: "\<And>m a. i \<le> m \<Longrightarrow> int m < count \<Longrightarrow> a < 3 \<Longrightarrow>
            V ! (m * 3 + a) = new_vel tr (targets ! (m * 3 + a)) (positions ! (m * 3 + a))
                (vels ! (m * 3 + a)) (rnd (k + 3 * (m - i) + a))
          \<and> P ! (m * 3 + a) = positions ! (m * 3 + a) + V ! (m * 3 + a)
          \<and> (nat count * 3 \<le> length colors \<longrightarrow>
                C ! (m * 3 + a) = lerp (channel cb a) (channel ch a) (heat tr V m))"
    proof -
      fix m a :: nat assume m: "i \<le> m" "int m < count" and a: "a < 3"
      show "V ! (m * 3 + a) = new_vel tr (targets ! (m * 3 + a)) (positions ! (m * 3 + a))
                (vels ! (m * 3 + a)) (rnd (k + 3 * (m - i) + a))
          \<and> P ! (m * 3 + a) = positions ! (m * 3 + a) + V ! (m * 3 + a)
          \<and> (nat count * 3 \<le> length colors \<longrightarrow>
                C ! (m * 3 + a) = lerp (channel cb a) (channel ch a) (heat tr V m))"
      proof (cases "m = i")
        case True
        have d: "(i * 3 + a) div 3 < Suc i" using divs[OF a, of i] by simp
        have c: "nat count * 3 \<le> length colors \<Longrightarrow> i * 3 + 2 < length colors"
          using m True by linarith
        show ?thesis
          using here1[OF a] other[of "i * 3 + a"] d heat_i c True by auto
      next
        case False
        then have s: "Suc i \<le> m" using m by simp
        have d: "(m * 3 + a) div 3 \<noteq> i" using divs[OF a, of m] False by simp
        have r: "k + 3 + 3 * (m - Suc i) + a = k + 3 * (m - i) + a" using s by linarith
        show ?thesis
          using here[OF s m(2) a] other1[OF d] len1 r by simp
      qed
    qed
    show ?thesis
      using eq len len1 unch upd by auto
  qed
qed


lemma useFrame_result:
  assumes "pointsRef s" "targetPositionsRef s = Some targets"
    "currentPositionsRef s = Some positions" "velocitiesRef s = Some vels"
    "nat count * 3 \<le> length targets" "nat count * 3 \<le> length positions"
    "nat count * 3 \<le> length vels"
  shows "\<exists>P V C. useFrame audioService cb ch count rnd k s
        = Some (s\<lparr>currentPositionsRef := Some P, velocitiesRef := Some V, colorAttr := C\<rparr>,
                k + 3 * nat count)
     \<and> length P = length positions \<and> length V = length vels \<and> length C = length (colorAttr s)
     \<and> (\<forall>m a. int m < count \<and> a < 3 \<longrightarrow>
            V ! (m * 3 + a) = new_vel (audioTreble_of audioService) (targets ! (m * 3 + a))
                (positions ! (m * 3 + a)) (vels ! (m * 3 + a)) (rnd (k + (m * 3 + a)))
          \<and> P ! (m * 3 + a) = positions ! (m * 3 + a) + V ! (m * 3 + a)
          \<and> (nat count * 3 \<le> length (colorAttr s) \<longrightarrow>
                C ! (m * 3 + a) = lerp (channel cb a) (channel ch a)
                   (heat (audioTreble_of audioService) V m)))"
proof -
  have "\<exists>P V C. physics_loop targets (audioTreble_of audioService) cb ch rnd count 0 k
           (positions, vels, colorAttr s) = Some ((P, V, C), k + 3 * nat count)
     \<and> length P = length positions \<and> length V = length vels \<and> length C = length (colorAttr s)
     \<and> (\<forall>m a. int m < count \<and> a < 3 \<longrightarrow>
            V ! (m * 3 + a) = new_vel (audioTreble_of audioService) (targets ! (m * 3 + a))
                (positions ! (m * 3 + a)) (vels ! (m * 3 + a)) (rnd (k + 3 * m + a))
          \<and> P ! (m * 3 + a) = positions ! (m * 3 + a) + V ! (m * 3 + a)
          \<and> (nat count * 3 \<le> length (colorAttr s) \<longrightarrow>
                C ! (m * 3 + a) = lerp (channel cb a) (channel ch a)
                   (heat (audioTreble_of audioService) V m)))"
    using physics_loop_result[OF assms(5-7), where i = 0 and k = k and rnd = rnd and tr = "audioTreble_of audioService"
        and cb = cb and ch = ch and colors = "colorAttr s"]
    apply (elim exE conjE)
    subgoal for P V C
      apply (rule exI[of _ P], rule exI[of _ V], rule exI[of _ C])
      apply simp
      done
    done
  then obtain P V C where
    lp: "physics_loop targets (audioTreble_of audioService) cb ch rnd count 0 k
           (positions, vels, colorAttr s) = Some ((P, V, C), k + 3 * nat count)"
    and len: "length P = length positions" "length V = length vels" "length C = length (colorAttr s)"
    and upd: "\<forall>m a. int m < count \<and> a < 3 \<longrightarrow>
            V ! (m * 3 + a) = new_vel (audioTreble_of audioService) (targets ! (m * 3 + a))
                (positions ! (m * 3 + a)) (vels ! (m * 3 + a)) (rnd (k + 3 * m + a))
          \<and> P ! (m * 3 + a) = positions ! (m * 3 + a) + V ! (m * 3 + a)
          \<and> (nat count * 3 \<le> length (colorAttr s) \<longrightarrow>
                C ! (m * 3 + a) = lerp (channel cb a) (channel ch a)
                   (heat (audioTreble_of audioService) V m))"
    by (elim exE conjE)
  have uf: "useFrame audioService cb ch count rnd k s
        = Some (s\<lparr>currentPositionsRef := Some P, velocitiesRef := Some V, colorAttr := C\<rparr>,
                k + 3 * nat count)"
    using assms(1-4) lp by (simp add: useFrame_def Let_def)
  have draw: "\<And>m a. k + 3 * m + a = k + (m * 3 + a)" by simp
  show ?thesis
    apply (rule exI[of _ P], rule exI[of _ V], rule exI[of _ C])
    using uf len upd unfolding draw by simp
qed


section \<open>The order of the integration step\<close>

text \<open>
  C1. In one frame, for every particle \<open>i\<close> below \<open>count\<close> and every axis \<open>a\<close>, the
  acceleration is \<open>(target - current) * 0.03\<close>, the jitter is a draw shifted to
  \<open>[-0.5, 0.5)\<close> times the amplitude \<open>0.02 + treble * 0.1\<close>, the stored velocity is
  the old velocity plus acceleration plus jitter, all multiplied by the damping 0.92,
  and the stored position is the old position plus that damped velocity.
\<close>

theorem integrator_order:
  assumes "pointsRef s" "targetPositionsRef s = Some targets"
    "currentPositionsRef s = Some positions" "velocitiesRef s = Some vels"
    "nat count * 3 \<le> length targets" "nat count * 3 \<le> length positions"
    "nat count * 3 \<le> length vels"
  shows "\<exists>s' P V. useFrame audioService base colorHot count rnd k s = Some (s', k + 3 * nat count)
     \<and> targetPositionsRef s' = Some targets
     \<and> currentPositionsRef s' = Some P \<and> velocitiesRef s' = Some V
     \<and> (\<forall>i a. int i < count \<and> a < 3 \<longrightarrow>
           (let j = i * 3 + a;
                accel = (targets ! j - positions ! j) * 0.03;
                noise = (rnd (k + j) - 0.5) * (0.02 + audioTreble_of audioService * 0.1)
            in V ! j = (vels ! j + accel + noise) * 0.92
             \<and> P ! j = positions ! j + V ! j))"
proof -
  from useFrame_result[OF assms, of audioService base colorHot rnd k]
  obtain P V C where
    uf: "useFrame audioService base colorHot count rnd k s
        = Some (s\<lparr>currentPositionsRef := Some P, velocitiesRef := Some V, colorAttr := C\<rparr>,
                k + 3 * nat count)"
    and upd: "\<forall>m a. int m < count \<and> a < 3 \<longrightarrow>
            V ! (m * 3 + a) = new_vel (audioTreble_of audioService) (targets ! (m * 3 + a))
                (positions ! (m * 3 + a)) (vels ! (m * 3 + a)) (rnd (k + (m * 3 + a)))
          \<and> P ! (m * 3 + a) = positions ! (m * 3 + a) + V ! (m * 3 + a)
          \<and> (nat count * 3 \<le> length (colorAttr s) \<longrightarrow>
                C ! (m * 3 + a) = lerp (channel base a) (channel colorHot a)
                   (heat (audioTreble_of audioService) V m))"
    by (elim exE conjE)
  have nv: "\<And>tr t p v u. new_vel tr t p v u
      = (v + (t - p) * 0.03 + (u - 0.5) * (0.02 + tr * 0.1)) * 0.92"
    by (simp add: new_vel_def add.assoc)
  have "\<forall>i a. int i < count \<and> a < 3 \<longrightarrow>
           (let j = i * 3 + a;
                accel = (targets ! j - positions ! j) * 0.03;
                noise = (rnd (k + j) - 0.5) * (0.02 + audioTreble_of audioService * 0.1)
            in V ! j = (vels ! j + accel + noise) * 0.92
             \<and> P ! j = positions ! j + V ! j)"
    unfolding Let_def using upd nv by metis
  then show ?thesis
    using uf assms(2) by auto
qed

theorem integrator_order_witness:
  "\<exists>s' P V. useFrame None \<lparr>col_r = 0, col_g = 1, col_b = 1\<rparr> \<lparr>col_r = 1, col_g = 1, col_b = 1\<rparr> 1
       (\<lambda>_. 1 / 2) 0
       \<lparr>pointsRef = True, targetPositionsRef = Some [1, 2, 3],
        currentPositionsRef = Some [0, 0, 0], velocitiesRef = Some [0, 0, 0],
        colorAttr = [0, 0, 0]\<rparr> = Some (s', 3)
     \<and> currentPositionsRef s' = Some P \<and> velocitiesRef s' = Some V
     \<and> V ! 0 = 69 / 2500 \<and> P ! 0 = 69 / 2500"
proof -
  define s :: particle_system where "s = \<lparr>pointsRef = True, targetPositionsRef = Some [1, 2, 3],
        currentPositionsRef = Some [0, 0, 0], velocitiesRef = Some [0, 0, 0],
        colorAttr = [0, 0, 0]\<rparr>"
  have h: "pointsRef s" "targetPositionsRef s = Some [1, 2, 3]"
    "currentPositionsRef s = Some [0, 0, 0]" "velocitiesRef s = Some [0, 0, 0]"
    "nat 1 * 3 \<le> length [1, 2, 3 :: real]" "nat 1 * 3 \<le> length [0, 0, 0 :: real]"
    "nat 1 * 3 \<le> length [0, 0, 0 :: real]"
    by (simp_all add: s_def)
  from integrator_order[OF h, of None "\<lparr>col_r = 0, col_g = 1, col_b = 1\<rparr>"
      "\<lparr>col_r = 1, col_g = 1, col_b = 1\<rparr>" "\<lambda>_. 1 / 2" 0]
  obtain s' P V where
    uf: "useFrame None \<lparr>col_r = 0, col_g = 1, col_b = 1\<rparr> \<lparr>col_r = 1, col_g = 1, col_b = 1\<rparr> 1
       (\<lambda>_. 1 / 2) 0 s = Some (s', 0 + 3 * nat 1)"
    and refs: "currentPositionsRef s' = Some P" "velocitiesRef s' = Some V"
    and upd: "\<forall>i a. int i < 1 \<and> a < 3 \<longrightarrow>
           (let j = i * 3 + a;
                accel = ([1, 2, 3] ! j - [0, 0, 0] ! j) * 0.03;
                noise = ((1 / 2 :: real) - 0.5) * (0.02 + audioTreble_of None * 0.1)
            in V ! j = ([0, 0, 0] ! j + accel + noise) * 0.92
             \<and> P ! j = [0, 0, 0] ! j + V ! j)"
    by (elim exE conjE)
  from upd[rule_format, of 0 0] have "V ! 0 = 69 / 2500" "P ! 0 = 69 / 2500"
    by (simp_all add: Let_def)
  with uf refs show ?thesis
    unfolding s_def by auto
qed


section \<open>Heat and color\<close>

lemma lerp_between:
  assumes "0 \<le> t" "t \<le> 1"
  shows "min x y \<le> lerp x y t" "lerp x y t \<le> max x y"
proof -
  have eq: "lerp x y t = x + t * (y - x)" by (simp add: lerp_def algebra_simps)
  show "min x y \<le> lerp x y t"
  proof (cases "x \<le> y")
    case True
    then have "0 \<le> t * (y - x)" using assms(1) by simp
    then show ?thesis using True eq by simp
  next
    case False
    then have "t * (x - y) \<le> 1 * (x - y)" using assms(2) by (intro mult_right_mono) simp_all
    then have "y \<le> x + t * (y - x)" by (simp add: algebra_simps)
    then show ?thesis using False eq by simp
  qed
  show "lerp x y t \<le> max x y"
  proof (cases "x \<le> y")
    case True
    then have "t * (y - x) \<le> 1 * (y - x)" using assms(2) by (intro mult_right_mono) simp_all
    then have "x + t * (y - x) \<le> y" by simp
    then show ?thesis using True eq by simp
  next
    case False
    then have "t * (y - x) \<le> 0" using assms(1) by (simp add: mult_le_0_iff)
    then show ?thesis using False eq by simp
  qed
qed

lemma heat_range:
  assumes "0 \<le> tr"
  shows "0 \<le> heat tr V i" "heat tr V i \<le> 1"
proof -
  have "0 \<le> sqrt ((V ! (i * 3))\<^sup>2 + (V ! (i * 3 + 1))\<^sup>2 + (V ! (i * 3 + 2))\<^sup>2)"
    by simp
  then have "0 \<le> sqrt ((V ! (i * 3))\<^sup>2 + (V ! (i * 3 + 1))\<^sup>2 + (V ! (i * 3 + 2))\<^sup>2) * 3 + tr * 0.5"
    using assms by simp
  then show "0 \<le> heat tr V i" by (simp add: heat_def)
  show "heat tr V i \<le> 1" by (simp add: heat_def)
qed

text \<open>
  C10. In every frame and for every particle below \<open>count\<close>, when the treble is not
  negative the heat factor \<open>min (speed * 3 + treble * 0.5) 1\<close>, with \<open>speed\<close> the norm
  of the stored velocity, lies in \<open>[0, 1]\<close>; each written color channel is the convex
  combination of the base and the hot channel by that factor and lies between the two;
  with treble 0 and a stored velocity of zero the written color is the base color.
\<close>

theorem heat_and_color:
  assumes "pointsRef s" "targetPositionsRef s = Some targets"
    "currentPositionsRef s = Some positions" "velocitiesRef s = Some vels"
    "nat count * 3 \<le> length targets" "nat count * 3 \<le> length positions"
    "nat count * 3 \<le> length vels"
    and colors: "nat count * 3 \<le> length (colorAttr s)"
    and tr: "0 \<le> audioTreble_of audioService"
  shows "\<exists>s' V. useFrame audioService base colorHot count rnd k s = Some (s', k + 3 * nat count)
     \<and> velocitiesRef s' = Some V
     \<and> (\<forall>i c. int i < count \<and> c < 3 \<longrightarrow>
           (let speed = sqrt ((V ! (i * 3))\<^sup>2 + (V ! (i * 3 + 1))\<^sup>2 + (V ! (i * 3 + 2))\<^sup>2);
                t = min (speed * 3 + audioTreble_of audioService * 0.5) 1;
                out = colorAttr s' ! (i * 3 + c)
            in 0 \<le> t \<and> t \<le> 1
             \<and> out = (1 - t) * channel base c + t * channel colorHot c
             \<and> min (channel base c) (channel colorHot c) \<le> out
             \<and> out \<le> max (channel base c) (channel colorHot c)
             \<and> (audioTreble_of audioService = 0
                  \<and> V ! (i * 3) = 0 \<and> V ! (i * 3 + 1) = 0 \<and> V ! (i * 3 + 2) = 0 \<longrightarrow>
                out = channel base c)))"
proof -
  from useFrame_result[OF assms(1-7), of audioService base colorHot rnd k]
  obtain P V C where
    uf: "useFrame audioService base colorHot count rnd k s
        = Some (s\<lparr>currentPositionsRef := Some P, velocitiesRef := Some V, colorAttr := C\<rparr>,
                k + 3 * nat count)"
    and upd: "\<forall>m a. int m < count \<and> a < 3 \<longrightarrow>
            V ! (m * 3 + a) = new_vel (audioTreble_of audioService) (targets ! (m * 3 + a))
                (positions ! (m * 3 + a)) (vels ! (m * 3 + a)) (rnd (k + (m * 3 + a)))
          \<and> P ! (m * 3 + a) = positions ! (m * 3 + a) + V ! (m * 3 + a)
          \<and> (nat count * 3 \<le> length (colorAttr s) \<longrightarrow>
                C ! (m * 3 + a) = lerp (channel base a) (channel colorHot a)
                   (heat (audioTreble_of audioService) V m))"
    by (elim exE conjE)
  define s' where "s' = s\<lparr>currentPositionsRef := Some P, velocitiesRef := Some V, colorAttr := C\<rparr>"
  have "\<forall>i c. int i < count \<and> c < 3 \<longrightarrow>
           (let speed = sqrt ((V ! (i * 3))\<^sup>2 + (V ! (i * 3 + 1))\<^sup>2 + (V ! (i * 3 + 2))\<^sup>2);
                t = min (speed * 3 + audioTreble_of audioService * 0.5) 1;
                out = colorAttr s' ! (i * 3 + c)
            in 0 \<le> t \<and> t \<le> 1
             \<and> out = (1 - t) * channel base c + t * channel colorHot c
             \<and> min (channel base c) (channel colorHot c) \<le> out
             \<and> out \<le> max (channel base c) (channel colorHot c)
             \<and> (audioTreble_of audioService = 0
                  \<and> V ! (i * 3) = 0 \<and> V ! (i * 3 + 1) = 0 \<and> V ! (i * 3 + 2) = 0 \<longrightarrow>
                out = channel base c))"
  proof (intro allI impI)
    fix i c :: nat assume h: "int i < count \<and> c < 3"
    define t where "t = heat (audioTreble_of audioService) V i"
    have out: "colorAttr s' ! (i * 3 + c) = lerp (channel base c) (channel colorHot c) t"
      using upd h colors by (simp add: s'_def t_def)
    have t01: "0 \<le> t" "t \<le> 1" using heat_range[OF tr] by (simp_all add: t_def)
    have zero: "audioTreble_of audioService = 0 \<Longrightarrow>
        V ! (i * 3) = 0 \<and> V ! (i * 3 + 1) = 0 \<and> V ! (i * 3 + 2) = 0 \<Longrightarrow> t = 0"
      by (simp add: t_def heat_def)
    show "let speed = sqrt ((V ! (i * 3))\<^sup>2 + (V ! (i * 3 + 1))\<^sup>2 + (V ! (i * 3 + 2))\<^sup>2);
                t = min (speed * 3 + audioTreble_of audioService * 0.5) 1;
                out = colorAttr s' ! (i * 3 + c)
            in 0 \<le> t \<and> t \<le> 1
             \<and> out = (1 - t) * channel base c + t * channel colorHot c
             \<and> min (channel base c) (channel colorHot c) \<le> out
             \<and> out \<le> max (channel base c) (channel colorHot c)
             \<and> (audioTreble_of audioService = 0
                  \<and> V ! (i * 3) = 0 \<and> V ! (i * 3 + 1) = 0 \<and> V ! (i * 3 + 2) = 0 \<longrightarrow>
                out = channel base c)"
      unfolding Let_def heat_def[symmetric, of V i "audioTreble_of audioService"] t_def[symmetric]
      using t01 out lerp_between[OF t01, of "channel base c" "channel colorHot c"] zero
      by (auto simp: lerp_def)
  qed
  then show ?thesis
    using uf unfolding s'_def by auto
qed


theorem heat_and_color_witness:
  "\<exists>s' V. useFrame (Some \<lparr>bass = 0, treble = 1 / 2\<rparr>) \<lparr>col_r = 0, col_g = 1 / 2, col_b = 1\<rparr>
         \<lparr>col_r = 1, col_g = 1, col_b = 1\<rparr> 1 (\<lambda>_. 1 / 4) 0
         \<lparr>pointsRef = True, targetPositionsRef = Some [1, 2, 3],
          currentPositionsRef = Some [0, 0, 0], velocitiesRef = Some [0, 0, 0],
          colorAttr = [0, 0, 0]\<rparr> = Some (s', 3)
     \<and> velocitiesRef s' = Some V
     \<and> 0 \<le> colorAttr s' ! 0 \<and> colorAttr s' ! 0 \<le> 1"
proof -
  define s :: particle_system where "s = \<lparr>pointsRef = True, targetPositionsRef = Some [1, 2, 3],
        currentPositionsRef = Some [0, 0, 0], velocitiesRef = Some [0, 0, 0],
        colorAttr = [0, 0, 0]\<rparr>"
  have h: "pointsRef s" "targetPositionsRef s = Some [1, 2, 3]"
    "currentPositionsRef s = Some [0, 0, 0]" "velocitiesRef s = Some [0, 0, 0]"
    "nat 1 * 3 \<le> length [1, 2, 3 :: real]" "nat 1 * 3 \<le> length [0, 0, 0 :: real]"
    "nat 1 * 3 \<le> length [0, 0, 0 :: real]" "nat 1 * 3 \<le> length (colorAttr s)"
    "0 \<le> audioTreble_of (Some \<lparr>bass = 0, treble = 1 / 2\<rparr>)"
    by (simp_all add: s_def audioTreble_of_def)
  from heat_and_color[OF h, of "\<lparr>col_r = 0, col_g = 1 / 2, col_b = 1\<rparr>"
      "\<lparr>col_r = 1, col_g = 1, col_b = 1\<rparr>" "\<lambda>_. 1 / 4" 0]
  obtain s' V where
    uf: "useFrame (Some \<lparr>bass = 0, treble = 1 / 2\<rparr>) \<lparr>col_r = 0, col_g = 1 / 2, col_b = 1\<rparr>
         \<lparr>col_r = 1, col_g = 1, col_b = 1\<rparr> 1 (\<lambda>_. 1 / 4) 0 s = Some (s', 0 + 3 * nat 1)"
    and v: "velocitiesRef s' = Some V"
    and col: "\<forall>i c. int i < 1 \<and> c < 3 \<longrightarrow>
           (let speed = sqrt ((V ! (i * 3))\<^sup>2 + (V ! (i * 3 + 1))\<^sup>2 + (V ! (i * 3 + 2))\<^sup>2);
                t = min (speed * 3 + audioTreble_of (Some \<lparr>bass = 0, treble = 1 / 2\<rparr>) * 0.5) 1;
                out = colorAttr s' ! (i * 3 + c)
            in 0 \<le> t \<and> t \<le> 1
             \<and> out = (1 - t) * channel \<lparr>col_r = 0, col_g = 1 / 2, col_b = 1\<rparr> c
                   + t * channel \<lparr>col_r = 1, col_g = 1, col_b = 1\<rparr> c
             \<and> min (channel \<lparr>col_r = 0, col_g = 1 / 2, col_b = 1\<rparr> c)
                   (channel \<lparr>col_r = 1, col_g = 1, col_b = 1\<rparr> c) \<le> out
             \<and> out \<le> max (channel \<lparr>col_r = 0, col_g = 1 / 2, col_b = 1\<rparr> c)
                   (channel \<lparr>col_r = 1, col_g = 1, col_b = 1\<rparr> c)
             \<and> (audioTreble_of (Some \<lparr>bass = 0, treble = 1 / 2\<rparr>) = 0
                  \<and> V ! (i * 3) = 0 \<and> V ! (i * 3 + 1) = 0 \<and> V ! (i * 3 + 2) = 0 \<longrightarrow>
                out = channel \<lparr>col_r = 0, col_g = 1 / 2, col_b = 1\<rparr> c))"
    by (elim exE conjE)
  from col[rule_format, of 0 0] have "0 \<le> colorAttr s' ! 0" "colorAttr s' ! 0 \<le> 1"
    by (simp_all add: Let_def channel_def)
  with uf v show ?thesis
    unfolding s_def by auto
qed


section \<open>A frame without audio\<close>

lemma flat_index:
  fixes j n :: nat
  assumes "j < n * 3"
  shows "int (j div 3) < int n" "j mod 3 < 3" "j div 3 * 3 + j mod 3 = j"
  using assms by auto

text \<open>
  C2, as the code has it. Without an audio service, or with all bands zero, the treble
  is 0 and the jitter amplitude is 0.02, not zero. One frame from a state with the
  target equal to the current position and zero velocity stores, in each component,
  the velocity \<open>(u - 0.5) * 0.02 * 0.92\<close> for that component's draw \<open>u\<close> and moves the
  position by it; a component keeps its velocity at zero and its position unchanged
  exactly when its draw is 0.5.
\<close>

theorem zero_audio_step:
  assumes "pointsRef s" "targetPositionsRef s = Some targets"
    "currentPositionsRef s = Some positions" "velocitiesRef s = Some vels"
    "nat count * 3 \<le> length targets" "nat count * 3 \<le> length positions"
    "nat count * 3 \<le> length vels"
    and audio: "audioService = None \<or> audioService = Some \<lparr>bass = 0, treble = 0\<rparr>"
    and rest: "\<forall>j < nat count * 3. targets ! j = positions ! j \<and> vels ! j = 0"
  shows "\<exists>s' P V. useFrame audioService base colorHot count rnd k s = Some (s', k + 3 * nat count)
     \<and> currentPositionsRef s' = Some P \<and> velocitiesRef s' = Some V
     \<and> (\<forall>j < nat count * 3.
           V ! j = (rnd (k + j) - 0.5) * 0.02 * 0.92
         \<and> P ! j = positions ! j + V ! j
         \<and> (V ! j = 0 \<longleftrightarrow> rnd (k + j) = 1 / 2)
         \<and> (P ! j = positions ! j \<longleftrightarrow> rnd (k + j) = 1 / 2))"
proof -
  have tr0: "audioTreble_of audioService = 0"
    using audio by (auto simp: audioTreble_of_def)
  from useFrame_result[OF assms(1-7), of audioService base colorHot rnd k]
  obtain P V C where
    uf: "useFrame audioService base colorHot count rnd k s
        = Some (s\<lparr>currentPositionsRef := Some P, velocitiesRef := Some V, colorAttr := C\<rparr>,
                k + 3 * nat count)"
    and upd: "\<forall>m a. int m < count \<and> a < 3 \<longrightarrow>
            V ! (m * 3 + a) = new_vel (audioTreble_of audioService) (targets ! (m * 3 + a))
                (positions ! (m * 3 + a)) (vels ! (m * 3 + a)) (rnd (k + (m * 3 + a)))
          \<and> P ! (m * 3 + a) = positions ! (m * 3 + a) + V ! (m * 3 + a)
          \<and> (nat count * 3 \<le> length (colorAttr s) \<longrightarrow>
                C ! (m * 3 + a) = lerp (channel base a) (channel colorHot a)
                   (heat (audioTreble_of audioService) V m))"
    by (elim exE conjE)
  have "\<forall>j < nat count * 3.
           V ! j = (rnd (k + j) - 0.5) * 0.02 * 0.92
         \<and> P ! j = positions ! j + V ! j
         \<and> (V ! j = 0 \<longleftrightarrow> rnd (k + j) = 1 / 2)
         \<and> (P ! j = positions ! j \<longleftrightarrow> rnd (k + j) = 1 / 2)"
  proof (intro allI impI)
    fix j assume j: "j < nat count * 3"
    from flat_index[OF j] have m: "int (j div 3) < count" "j mod 3 < 3"
      and eq: "j div 3 * 3 + j mod 3 = j" by linarith+
    from upd[rule_format, of "j div 3" "j mod 3"] m
    have v: "V ! j = new_vel 0 (targets ! j) (positions ! j) (vels ! j) (rnd (k + j))"
      and p: "P ! j = positions ! j + V ! j"
      unfolding eq tr0 by simp_all
    from rest j have "targets ! j = positions ! j" "vels ! j = 0" by simp_all
    with v have v': "V ! j = (rnd (k + j) - 0.5) * 0.02 * 0.92"
      by (simp add: new_vel_def)
    have z: "V ! j = 0 \<longleftrightarrow> rnd (k + j) = 1 / 2"
      unfolding v' by auto
    show "V ! j = (rnd (k + j) - 0.5) * 0.02 * 0.92
         \<and> P ! j = positions ! j + V ! j
         \<and> (V ! j = 0 \<longleftrightarrow> rnd (k + j) = 1 / 2)
         \<and> (P ! j = positions ! j \<longleftrightarrow> rnd (k + j) = 1 / 2)"
      using v' p z by simp
  qed
  then show ?thesis
    using uf by auto
qed

theorem zero_audio_step_witness:
  "\<exists>s' P V. useFrame None \<lparr>col_r = 0, col_g = 1, col_b = 1\<rparr> \<lparr>col_r = 1, col_g = 1, col_b = 1\<rparr> 1
       (\<lambda>_. 1 / 4) 0
       \<lparr>pointsRef = True, targetPositionsRef = Some [1, 2, 3],
        currentPositionsRef = Some [1, 2, 3], velocitiesRef = Some [0, 0, 0],
        colorAttr = [0, 0, 0]\<rparr> = Some (s', 3)
     \<and> currentPositionsRef s' = Some P \<and> velocitiesRef s' = Some V
     \<and> V ! 0 = - 23 / 5000 \<and> P ! 0 = 1 - 23 / 5000"
proof -
  define s :: particle_system where "s = \<lparr>pointsRef = True, targetPositionsRef = Some [1, 2, 3],
        currentPositionsRef = Some [1, 2, 3], velocitiesRef = Some [0, 0, 0],
        colorAttr = [0, 0, 0]\<rparr>"
  have h: "pointsRef s" "targetPositionsRef s = Some [1, 2, 3]"
    "currentPositionsRef s = Some [1, 2, 3]" "velocitiesRef s = Some [0, 0, 0]"
    "nat 1 * 3 \<le> length [1, 2, 3 :: real]" "nat 1 * 3 \<le> length [1, 2, 3 :: real]"
    "nat 1 * 3 \<le> length [0, 0, 0 :: real]"
    "(None :: audio_data option) = None \<or> None = Some \<lparr>bass = 0, treble = 0\<rparr>"
    "\<forall>j < nat 1 * 3. [1, 2, 3 :: real] ! j = [1, 2, 3] ! j \<and> [0, 0, 0 :: real] ! j = 0"
    by (auto simp: s_def nth_Cons')
  from zero_audio_step[OF h, of "\<lparr>col_r = 0, col_g = 1, col_b = 1\<rparr>"
      "\<lparr>col_r = 1, col_g = 1, col_b = 1\<rparr>" "\<lambda>_. 1 / 4" 0]
  obtain s' P V where
    uf: "useFrame None \<lparr>col_r = 0, col_g = 1, col_b = 1\<rparr> \<lparr>col_r = 1, col_g = 1, col_b = 1\<rparr> 1
       (\<lambda>_. 1 / 4) 0 s = Some (s', 0 + 3 * nat 1)"
    and refs: "currentPositionsRef s' = Some P" "velocitiesRef s' = Some V"
    and upd: "\<forall>j < nat 1 * 3.
           V ! j = ((1 / 4 :: real) - 0.5) * 0.02 * 0.92
         \<and> P ! j = [1, 2, 3] ! j + V ! j
         \<and> (V ! j = 0 \<longleftrightarrow> (1 / 4 :: real) = 1 / 2)
         \<and> (P ! j = [1, 2, 3] ! j \<longleftrightarrow> (1 / 4 :: real) = 1 / 2)"
    by (elim exE conjE)
  from upd[rule_format, of 0] have "V ! 0 = - 23 / 5000" "P ! 0 = 1 - 23 / 5000"
    by simp_all
  with uf refs show ?thesis
    unfolding s_def by auto
qed


text \<open>
  C2 as stated fails: with every draw equal to 0, one particle at rest on its target
  and no audio service, the frame stores a velocity of \<open>-0.0092\<close> in each component and
  moves the particle off its target.
\<close>

theorem zero_audio_jitter_counterexample:
  "useFrame None \<lparr>col_r = 1, col_g = 1, col_b = 1\<rparr> \<lparr>col_r = 1, col_g = 1, col_b = 1\<rparr> 1
       (\<lambda>_. 0) 0
       \<lparr>pointsRef = True, targetPositionsRef = Some [0, 0, 0],
        currentPositionsRef = Some [0, 0, 0], velocitiesRef = Some [0, 0, 0],
        colorAttr = [1, 1, 1]\<rparr>
     = Some (\<lparr>pointsRef = True, targetPositionsRef = Some [0, 0, 0],
        currentPositionsRef = Some [- 23 / 2500, - 23 / 2500, - 23 / 2500],
        velocitiesRef = Some [- 23 / 2500, - 23 / 2500, - 23 / 2500],
        colorAttr = [1, 1, 1]\<rparr>, 3)"
  by (simp add: useFrame_def physics_loop.simps particle_update_def arr_get_def Let_def
      audioTreble_of_def lerp_def)



section \<open>Relaxation toward a constant target\<close>

lemma axis_energy_step:
  "axis_energy (p + new_vel tr t p v (1 / 2) - t) (new_vel tr t p v (1 / 2))
     = 23 / 25 * axis_energy (p - t) v"
proof -
  define e where "e = p - t"
  have nv: "new_vel tr t p v (1 / 2) = 23 / 25 * v - 69 / 2500 * e"
    by (simp add: new_vel_def e_def field_simps)
  have off: "p + (23 / 25 * v - 69 / 2500 * e) - t = e + (23 / 25 * v - 69 / 2500 * e)"
    by (simp add: e_def)
  have "axis_energy (e + (23 / 25 * v - 69 / 2500 * e)) (23 / 25 * v - 69 / 2500 * e)
     = 23 / 25 * axis_energy e v"
    unfolding axis_energy_def power2_eq_square by algebra
  then show ?thesis
    unfolding nv off e_def[symmetric] .
qed

lemma axis_energy_bound: "67 * e\<^sup>2 \<le> axis_energy e v"
proof -
  have "axis_energy e v - 67 * e\<^sup>2 = 2 * (e + 131 / 4 * v)\<^sup>2 + 1239 / 8 * v\<^sup>2"
    by (simp add: axis_energy_def power2_eq_square algebra_simps)
  moreover have "0 \<le> 2 * (e + 131 / 4 * v)\<^sup>2 + 1239 / 8 * v\<^sup>2" by simp
  ultimately show ?thesis by linarith
qed

lemma energy_bound: "67 * (distance targets P i)\<^sup>2 \<le> energy targets P V i"
proof -
  have "0 \<le> sq_distance targets P i" by (simp add: sq_distance_def)
  then have "(distance targets P i)\<^sup>2 = sq_distance targets P i"
    by (simp add: distance_def)
  then show ?thesis
    using axis_energy_bound[of "P ! (i * 3) - targets ! (i * 3)" "V ! (i * 3)"]
      axis_energy_bound[of "P ! (i * 3 + 1) - targets ! (i * 3 + 1)" "V ! (i * 3 + 1)"]
      axis_energy_bound[of "P ! (i * 3 + 2) - targets ! (i * 3 + 2)" "V ! (i * 3 + 2)"]
    by (simp add: energy_def sq_distance_def)
qed

lemma useFrame_energy:
  assumes "pointsRef s" "targetPositionsRef s = Some targets"
    "currentPositionsRef s = Some positions" "velocitiesRef s = Some vels"
    "nat count * 3 \<le> length targets" "nat count * 3 \<le> length positions"
    "nat count * 3 \<le> length vels"
    and quiet: "\<forall>j. rnd j = 1 / 2"
  shows "\<exists>s' P V. useFrame audioService base colorHot count rnd k s = Some (s', k + 3 * nat count)
     \<and> pointsRef s' \<and> targetPositionsRef s' = Some targets
     \<and> currentPositionsRef s' = Some P \<and> velocitiesRef s' = Some V
     \<and> nat count * 3 \<le> length P \<and> nat count * 3 \<le> length V
     \<and> (\<forall>i. int i < count \<longrightarrow>
           energy targets P V i = 23 / 25 * energy targets positions vels i)"
proof -
  from useFrame_result[OF assms(1-7), of audioService base colorHot rnd k]
  obtain P V C where
    uf: "useFrame audioService base colorHot count rnd k s
        = Some (s\<lparr>currentPositionsRef := Some P, velocitiesRef := Some V, colorAttr := C\<rparr>,
                k + 3 * nat count)"
    and len: "length P = length positions" "length V = length vels"
    and upd: "\<forall>m a. int m < count \<and> a < 3 \<longrightarrow>
            V ! (m * 3 + a) = new_vel (audioTreble_of audioService) (targets ! (m * 3 + a))
                (positions ! (m * 3 + a)) (vels ! (m * 3 + a)) (rnd (k + (m * 3 + a)))
          \<and> P ! (m * 3 + a) = positions ! (m * 3 + a) + V ! (m * 3 + a)
          \<and> (nat count * 3 \<le> length (colorAttr s) \<longrightarrow>
                C ! (m * 3 + a) = lerp (channel base a) (channel colorHot a)
                   (heat (audioTreble_of audioService) V m))"
    by (elim exE conjE)
  have "\<forall>i. int i < count \<longrightarrow>
           energy targets P V i = 23 / 25 * energy targets positions vels i"
  proof (intro allI impI)
    fix i assume i: "int i < count"
    have ax: "\<And>a. a < 3 \<Longrightarrow>
        axis_energy (P ! (i * 3 + a) - targets ! (i * 3 + a)) (V ! (i * 3 + a))
        = 23 / 25 * axis_energy (positions ! (i * 3 + a) - targets ! (i * 3 + a)) (vels ! (i * 3 + a))"
    proof -
      fix a :: nat assume a: "a < 3"
      from upd[rule_format, of i a] i a quiet
      have "V ! (i * 3 + a) = new_vel (audioTreble_of audioService) (targets ! (i * 3 + a))
                (positions ! (i * 3 + a)) (vels ! (i * 3 + a)) (1 / 2)"
        and "P ! (i * 3 + a) = positions ! (i * 3 + a) + V ! (i * 3 + a)"
        by simp_all
      then show "axis_energy (P ! (i * 3 + a) - targets ! (i * 3 + a)) (V ! (i * 3 + a))
        = 23 / 25 * axis_energy (positions ! (i * 3 + a) - targets ! (i * 3 + a)) (vels ! (i * 3 + a))"
        using axis_energy_step[of "positions ! (i * 3 + a)" "audioTreble_of audioService"
            "targets ! (i * 3 + a)" "vels ! (i * 3 + a)"] by simp
    qed
    from ax[of 0] ax[of 1] ax[of 2]
    show "energy targets P V i = 23 / 25 * energy targets positions vels i"
      by (simp add: energy_def)
  qed
  then show ?thesis
    using uf len assms(1,2,6,7) by auto
qed


text \<open>
  C4, as the code has it. With a constant target and every jitter term zero (every draw
  0.5), the Euclidean distance to the target need not shrink from one frame to the
  next. What shrinks is the energy \<open>69 e\<^sup>2 + 131 e v + 2300 v\<^sup>2\<close> summed over the
  three axes (\<open>e\<close> the offset from the target, \<open>v\<close> the velocity): each frame
  multiplies it by exactly 0.92. After \<open>n\<close> frames it is \<open>0.92\<^sup>n\<close> times its first
  value, and 67 times the squared distance is at most that, so the current position
  converges to the target.
\<close>

theorem energy_decay:
  assumes "pointsRef s" "targetPositionsRef s = Some targets"
    "currentPositionsRef s = Some positions" "velocitiesRef s = Some vels"
    "nat count * 3 \<le> length targets" "nat count * 3 \<le> length positions"
    "nat count * 3 \<le> length vels"
    and quiet: "\<forall>j. rnd j = 1 / 2"
  shows "\<exists>s' P V. run_frames n audioService base colorHot count rnd k s
        = Some (s', k + n * (3 * nat count))
     \<and> targetPositionsRef s' = Some targets
     \<and> currentPositionsRef s' = Some P \<and> velocitiesRef s' = Some V
     \<and> (\<forall>i. int i < count \<longrightarrow>
           energy targets P V i = (23 / 25) ^ n * energy targets positions vels i
         \<and> 67 * (distance targets P i)\<^sup>2 \<le> (23 / 25) ^ n * energy targets positions vels i)"
proof -
  have "\<exists>s' P V. run_frames n audioService base colorHot count rnd k s
        = Some (s', k + n * (3 * nat count))
     \<and> targetPositionsRef s' = Some targets
     \<and> currentPositionsRef s' = Some P \<and> velocitiesRef s' = Some V
     \<and> (\<forall>i. int i < count \<longrightarrow>
           energy targets P V i = (23 / 25) ^ n * energy targets positions vels i)"
    using assms(1-7)
  proof (induction n arbitrary: s positions vels k)
    case 0
    then show ?case by simp
  next
    case (Suc n)
    from useFrame_energy[OF Suc.prems quiet, of audioService base colorHot k]
    obtain s1 P1 V1 where
      uf: "useFrame audioService base colorHot count rnd k s = Some (s1, k + 3 * nat count)"
      and s1: "pointsRef s1" "targetPositionsRef s1 = Some targets"
        "currentPositionsRef s1 = Some P1" "velocitiesRef s1 = Some V1"
      and len1: "nat count * 3 \<le> length P1" "nat count * 3 \<le> length V1"
      and en1: "\<forall>i. int i < count \<longrightarrow>
           energy targets P1 V1 i = 23 / 25 * energy targets positions vels i"
      by (elim exE conjE)
    from Suc.IH[OF s1 Suc.prems(5) len1, of "k + 3 * nat count"]
    obtain s' P V where
      rf: "run_frames n audioService base colorHot count rnd (k + 3 * nat count) s1
        = Some (s', k + 3 * nat count + n * (3 * nat count))"
      and s': "targetPositionsRef s' = Some targets"
        "currentPositionsRef s' = Some P" "velocitiesRef s' = Some V"
      and en: "\<forall>i. int i < count \<longrightarrow>
           energy targets P V i = (23 / 25) ^ n * energy targets P1 V1 i"
      by (elim exE conjE)
    have "run_frames (Suc n) audioService base colorHot count rnd k s
        = Some (s', k + Suc n * (3 * nat count))"
      using uf rf by simp
    moreover have "\<forall>i. int i < count \<longrightarrow>
           energy targets P V i = (23 / 25) ^ Suc n * energy targets positions vels i"
      using en en1 by simp
    ultimately show ?case
      using s' by blast
  qed
  then obtain s' P V where
    rf: "run_frames n audioService base colorHot count rnd k s = Some (s', k + n * (3 * nat count))"
    and s': "targetPositionsRef s' = Some targets"
      "currentPositionsRef s' = Some P" "velocitiesRef s' = Some V"
    and en: "\<forall>i. int i < count \<longrightarrow>
           energy targets P V i = (23 / 25) ^ n * energy targets positions vels i"
    by (elim exE conjE)
  have "\<forall>i. int i < count \<longrightarrow>
           energy targets P V i = (23 / 25) ^ n * energy targets positions vels i
         \<and> 67 * (distance targets P i)\<^sup>2 \<le> (23 / 25) ^ n * energy targets positions vels i"
    using en energy_bound[of targets P _ V] by metis
  with rf s' show ?thesis by blast
qed


theorem energy_decay_witness:
  "\<exists>s' P V. run_frames 2 None \<lparr>col_r = 0, col_g = 1, col_b = 1\<rparr>
         \<lparr>col_r = 1, col_g = 1, col_b = 1\<rparr> 1 (\<lambda>_. 1 / 2) 0
         \<lparr>pointsRef = True, targetPositionsRef = Some [0, 0, 0],
          currentPositionsRef = Some [1, 0, 0], velocitiesRef = Some [0, 0, 0],
          colorAttr = [0, 0, 0]\<rparr> = Some (s', 6)
     \<and> currentPositionsRef s' = Some P \<and> velocitiesRef s' = Some V
     \<and> energy [0, 0, 0] P V 0 = (23 / 25)\<^sup>2 * 69
     \<and> 67 * (distance [0, 0, 0] P 0)\<^sup>2 \<le> (23 / 25)\<^sup>2 * 69"
proof -
  define s :: particle_system where "s = \<lparr>pointsRef = True, targetPositionsRef = Some [0, 0, 0],
        currentPositionsRef = Some [1, 0, 0], velocitiesRef = Some [0, 0, 0],
        colorAttr = [0, 0, 0]\<rparr>"
  have h: "pointsRef s" "targetPositionsRef s = Some [0, 0, 0]"
    "currentPositionsRef s = Some [1, 0, 0]" "velocitiesRef s = Some [0, 0, 0]"
    "nat 1 * 3 \<le> length [0, 0, 0 :: real]" "nat 1 * 3 \<le> length [1, 0, 0 :: real]"
    "nat 1 * 3 \<le> length [0, 0, 0 :: real]" "\<forall>j::nat. (\<lambda>_. 1 / 2 :: real) j = 1 / 2"
    by (simp_all add: s_def)
  have e0: "energy [0, 0, 0] [1, 0, 0] [0, 0, 0] 0 = 69"
    by (simp add: energy_def axis_energy_def)
  from energy_decay[OF h, of 2 None "\<lparr>col_r = 0, col_g = 1, col_b = 1\<rparr>"
      "\<lparr>col_r = 1, col_g = 1, col_b = 1\<rparr>" 0]
  obtain s' P V where
    rf: "run_frames 2 None \<lparr>col_r = 0, col_g = 1, col_b = 1\<rparr>
         \<lparr>col_r = 1, col_g = 1, col_b = 1\<rparr> 1 (\<lambda>_. 1 / 2) 0 s = Some (s', 0 + 2 * (3 * nat 1))"
    and refs: "currentPositionsRef s' = Some P" "velocitiesRef s' = Some V"
    and en: "\<forall>i. int i < 1 \<longrightarrow>
           energy [0, 0, 0] P V i = (23 / 25) ^ 2 * energy [0, 0, 0] [1, 0, 0] [0, 0, 0] i
         \<and> 67 * (distance [0, 0, 0] P i)\<^sup>2
             \<le> (23 / 25) ^ 2 * energy [0, 0, 0] [1, 0, 0] [0, 0, 0] i"
    by (elim exE conjE)
  from en[rule_format, of 0] e0
  have "energy [0, 0, 0] P V 0 = (23 / 25)\<^sup>2 * 69"
    "67 * (distance [0, 0, 0] P 0)\<^sup>2 \<le> (23 / 25)\<^sup>2 * 69"
    by simp_all
  with rf refs show ?thesis
    unfolding s_def by auto
qed

text \<open>
  C4 as stated fails: a particle on its target with velocity \<open>(1, 0, 0)\<close> and zero
  jitter is at distance 0 before the frame and at distance 0.92 after it.
\<close>

theorem distance_not_monotone_counterexample:
  "useFrame None \<lparr>col_r = 1, col_g = 1, col_b = 1\<rparr> \<lparr>col_r = 1, col_g = 1, col_b = 1\<rparr> 1
       (\<lambda>_. 1 / 2) 0
       \<lparr>pointsRef = True, targetPositionsRef = Some [0, 0, 0],
        currentPositionsRef = Some [0, 0, 0], velocitiesRef = Some [1, 0, 0],
        colorAttr = [1, 1, 1]\<rparr>
     = Some (\<lparr>pointsRef = True, targetPositionsRef = Some [0, 0, 0],
        currentPositionsRef = Some [23 / 25, 0, 0],
        velocitiesRef = Some [23 / 25, 0, 0],
        colorAttr = [1, 1, 1]\<rparr>, 3)
   \<and> distance [0, 0, 0] [0, 0, 0] 0 = 0
   \<and> distance [0, 0, 0] [23 / 25, 0, 0] 0 = 23 / 25"
proof -
  have "sqrt ((23 / 25)\<^sup>2) = (23 / 25 :: real)" by (simp only: real_sqrt_abs abs_of_nonneg)
  then have d: "distance [0, 0, 0] [23 / 25, 0, 0] 0 = 23 / 25"
    by (simp add: distance_def sq_distance_def)
  have d0: "distance [0, 0, 0] [0, 0, 0] 0 = 0"
    by (simp add: distance_def sq_distance_def)
  have "useFrame None \<lparr>col_r = 1, col_g = 1, col_b = 1\<rparr> \<lparr>col_r = 1, col_g = 1, col_b = 1\<rparr> 1
       (\<lambda>_. 1 / 2) 0
       \<lparr>pointsRef = True, targetPositionsRef = Some [0, 0, 0],
        currentPositionsRef = Some [0, 0, 0], velocitiesRef = Some [1, 0, 0],
        colorAttr = [1, 1, 1]\<rparr>
     = Some (\<lparr>pointsRef = True, targetPositionsRef = Some [0, 0, 0],
        currentPositionsRef = Some [23 / 25, 0, 0],
        velocitiesRef = Some [23 / 25, 0, 0],
        colorAttr = [1, 1, 1]\<rparr>, 3)"
    by (simp add: useFrame_def physics_loop.simps particle_update_def arr_get_def Let_def
        audioTreble_of_def lerp_def)
  with d d0 show ?thesis by simp
qed


section \<open>Sampling never leaves the finite numbers\<close>

lemma big_bang_point_total:
  assumes "unit_draws rnd"
  shows "big_bang_point radius rnd k \<noteq> None"
proof -
  have "0 \<le> rnd (k + 2)" "rnd (k + 2) < 1" using assms by (simp_all add: unit_draws_def)
  then show ?thesis by (simp add: big_bang_point_def Math_acos_def Let_def)
qed

lemma sphere_arg:
  fixes i :: nat and c :: real
  assumes "real i < c"
  shows "2 * real i / c \<ge> 0" "2 * real i / c \<le> 2"
proof -
  have c: "0 < c" using assms by (meson le_less_trans of_nat_0_le_iff)
  show "2 * real i / c \<ge> 0" using c by simp
  have "2 * real i \<le> 2 * c" using assms by simp
  then show "2 * real i / c \<le> 2" using c by (simp add: pos_divide_le_eq)
qed

lemma shape_point_total:
  assumes "int i < pCount" "unit_draws rnd"
  shows "shape_point type i pCount radius rnd k \<noteq> None"
proof (cases type)
  case SPHERE
  have lt: "real i < real_of_int pCount" using assms(1) by linarith
  from sphere_arg[OF lt] lt show ?thesis
    by (simp add: SPHERE shape_point_def js_div_def Math_acos_def Math_sqrt_def Let_def)
next
  case SATURN
  show ?thesis
  proof (cases "real i < real_of_int pCount * 0.7")
    case True
    from sphere_arg[OF True] True have "0 < real_of_int pCount" "2 * real i / (real_of_int pCount * 0.7) \<ge> 0"
      "2 * real i / (real_of_int pCount * 0.7) \<le> 2"
      using assms(1) by simp_all
    then show ?thesis using True
      by (simp add: SATURN shape_point_def js_div_def Math_acos_def Math_sqrt_def Let_def)
  next
    case False
    have "0 \<le> rnd (k + 1)" using assms(2) by (simp add: unit_draws_def)
    then show ?thesis using False
      by (simp add: SATURN shape_point_def Math_sqrt_def Let_def)
  qed
next
  case GALAXY
  have "real_of_int pCount \<noteq> 0" using assms(1) by linarith
  then show ?thesis by (simp add: GALAXY shape_point_def js_div_def Let_def)
next
  case DNA
  have "real_of_int pCount \<noteq> 0" using assms(1) by linarith
  then show ?thesis by (simp add: DNA shape_point_def js_div_def Let_def)
next
  case PYRAMID
  then show ?thesis by (simp add: shape_point_def Let_def split: prod.splits)
next
  case CUBE
  then show ?thesis by (simp add: shape_point_def)
next
  case TORUS
  then show ?thesis by (simp add: shape_point_def Let_def)
next
  case BIG_BANG
  then show ?thesis using big_bang_point_total[OF assms(2), of radius k] by (simp add: shape_point_def)
next
  case TEXT
  then show ?thesis using big_bang_point_total[OF assms(2), of radius k] by (simp add: shape_point_def)
next
  case NUMBER
  then show ?thesis using big_bang_point_total[OF assms(2), of radius k] by (simp add: shape_point_def)
qed

lemma shape_loop_total:
  assumes "unit_draws rnd"
  shows "\<exists>ps k'. shape_loop type pCount radius rnd i k positions = Inr (ps, k')
           \<and> length ps = length positions"
  using assms
proof (induction type pCount radius rnd i k positions rule: shape_loop.induct)
  case (1 type pCount radius rnd i k positions)
  show ?case
  proof (cases "int i < pCount")
    case False
    then show ?thesis by (subst shape_loop.simps) simp
  next
    case True
    have "shape_point type i pCount radius rnd k \<noteq> None"
      using True "1.prems" by (rule shape_point_total)
    then obtain pt k1 where sp0: "shape_point type i pCount radius rnd k = Some (pt, k1)"
      by fastforce
    obtain x y z where pt: "pt = (x, y, z)" by (cases pt) 
    have sp: "shape_point type i pCount radius rnd k = Some ((x, y, z), k1)"
      using sp0 pt by simp
    from "1.IH"[OF True sp refl refl refl "1.prems"]
    show ?thesis
      using True sp by (subst shape_loop.simps) simp
  qed
qed


lemma pixel_index_in_range:
  fixes u :: real and n :: nat
  assumes "0 \<le> u" "u < 1" "0 < n"
  shows "0 \<le> \<lfloor>u * real n\<rfloor>" "\<lfloor>u * real n\<rfloor> < int n"
proof -
  show "0 \<le> \<lfloor>u * real n\<rfloor>" using assms by simp
  have "u * real n < real n" using assms by simp
  then show "\<lfloor>u * real n\<rfloor> < int n" by (simp add: floor_less_iff)
qed

lemma text_loop_total:
  assumes "unit_draws rnd" "validPixels \<noteq> []"
  shows "\<exists>ps k'. text_loop validPixels pCount radius rnd i k positions = Inr (ps, k')
           \<and> length ps = length positions"
  using assms
proof (induction validPixels pCount radius rnd i k positions rule: text_loop.induct)
  case (1 validPixels pCount radius rnd i k positions)
  show ?case
  proof (cases "int i < pCount")
    case False
    then show ?thesis by (subst text_loop.simps) simp
  next
    case True
    define j where "j = \<lfloor>rnd k * real (length validPixels)\<rfloor>"
    have u: "0 \<le> rnd k" "rnd k < 1" using "1.prems"(1) by (simp_all add: unit_draws_def)
    have n: "0 < length validPixels" using "1.prems"(2) by simp
    have j: "\<not> (j < 0 \<or> int (length validPixels) \<le> j)"
      using pixel_index_in_range[OF u n] by (simp add: j_def)
    from "1.IH"[OF True j_def j refl refl refl refl "1.prems"]
    show ?thesis
      using True j by (subst text_loop.simps) (simp add: j_def Let_def)
  qed
qed

lemma generateTextPositions_total:
  assumes "0 \<le> pCount" "unit_draws rnd"
  shows "\<exists>ps k'. generateTextPositions env text pCount radius rnd k = Inr (ps, k')
           \<and> length ps = 3 * nat pCount"
proof -
  have len: "nat (pCount * 3) = 3 * nat pCount" using assms(1) by (simp add: nat_mult_distrib)
  show ?thesis
  proof (cases "ctx_available env \<and> scan_pixels (getImageData env text) \<noteq> []")
    case False
    then show ?thesis
      using assms(1) len by (auto simp: generateTextPositions_def Float32Array_new_def Let_def)
  next
    case True
    from text_loop_total[OF assms(2), of "scan_pixels (getImageData env text)" pCount radius 0 k
        "replicate (nat (pCount * 3)) 0"] True
    show ?thesis
      using assms(1) len by (auto simp: generateTextPositions_def Float32Array_new_def Let_def)
  qed
qed

lemma generateTargetPositions_total:
  assumes "0 \<le> pCount" "unit_draws rnd"
  shows "\<exists>ps k'. generateTargetPositions env ci ni type pCount radius rnd k = Inr (ps, k')
           \<and> length ps = 3 * nat pCount"
proof -
  have len: "nat (pCount * 3) = 3 * nat pCount" using assms(1) by (simp add: nat_mult_distrib)
  consider "type = TEXT" | "type = NUMBER" | "type \<noteq> TEXT" "type \<noteq> NUMBER" by blast
  then show ?thesis
  proof cases
    case 1
    then show ?thesis
      using generateTextPositions_total[OF assms] by (simp add: generateTargetPositions_def)
  next
    case 2
    then show ?thesis
      using generateTextPositions_total[OF assms] by (simp add: generateTargetPositions_def)
  next
    case 3
    from shape_loop_total[OF assms(2), of type pCount radius 0 k "replicate (nat (pCount * 3)) 0"]
    show ?thesis
      using 3 assms(1) len by (auto simp: generateTargetPositions_def Float32Array_new_def)
  qed
qed


text \<open>
  C5. For every formation, the two glyph formations included, and every count that is
  not negative, the sampler returns an array of exactly \<open>count\<close> triples, that is
  \<open>3 * count\<close> numbers, and no operation on the way leaves the finite numbers: no
  arc cosine outside \<open>[-1, 1]\<close>, no square root of a negative number, no division by
  zero, no pixel read outside the list of foreground pixels. For a count of 0 the
  array is empty. The draws of the random source lie in \<open>[0, 1)\<close>.
\<close>

theorem sample_count:
  assumes "0 \<le> pCount" "unit_draws rnd"
  shows "\<exists>positions k'.
      generateTargetPositions env ci ni type pCount radius rnd k = Inr (positions, k')
    \<and> length positions = 3 * nat pCount \<and> (pCount = 0 \<longrightarrow> positions = [])"
  using generateTargetPositions_total[OF assms, of env ci ni type radius k] by auto

theorem sample_count_witness:
  "\<exists>positions k'.
      generateTargetPositions \<lparr>ctx_available = False, getImageData = (\<lambda>_. [])\<rparr> 0 0 SATURN 2 10
        (\<lambda>_. 1 / 2) 0 = Inr (positions, k')
    \<and> length positions = 6"
proof -
  have h: "(0::int) \<le> 2" "unit_draws (\<lambda>_. 1 / 2)"
    by (simp_all add: unit_draws_def)
  from sample_count[OF h, of "\<lparr>ctx_available = False, getImageData = (\<lambda>_. [])\<rparr>" 0 0 SATURN 10 0]
  show ?thesis by auto
qed

section \<open>Glyphs without foreground pixels\<close>

text \<open>
  C9. For the glyph formations, when the drawing context is unavailable or the scan of
  the rasterized text finds no pixel above the threshold, the sampler returns the
  all-zero array of \<open>count\<close> triples, consumes no draw and raises nothing.
\<close>

theorem degenerate_glyph:
  assumes "0 \<le> pCount"
    and "type = TEXT \<and> text = String_fromCharCode (65 + ci)
       \<or> type = NUMBER \<and> text = map of_char (String_of_int ni)"
    and "\<not> ctx_available env \<or> scan_pixels (getImageData env text) = []"
  shows "generateTargetPositions env ci ni type pCount radius rnd k
     = Inr (replicate (3 * nat pCount) 0, k)"
proof -
  have len: "nat (pCount * 3) = 3 * nat pCount" using assms(1) by (simp add: nat_mult_distrib)
  have "generateTextPositions env text pCount radius rnd k = Inr (replicate (3 * nat pCount) 0, k)"
    using assms(1,3) len by (auto simp: generateTextPositions_def Float32Array_new_def Let_def)
  then show ?thesis
    using assms(2) by (auto simp: generateTargetPositions_def)
qed

theorem degenerate_glyph_witness:
  "generateTargetPositions \<lparr>ctx_available = False, getImageData = (\<lambda>_. [255])\<rparr> 0 5 NUMBER 2 10
      (\<lambda>_. 1 / 2) 0 = Inr ([0, 0, 0, 0, 0, 0], 0)"
proof -
  have h: "(0::int) \<le> 2"
    "NUMBER = TEXT \<and> map of_char (String_of_int 5) = String_fromCharCode (65 + 0)
       \<or> NUMBER = NUMBER \<and> map of_char (String_of_int 5) = map of_char (String_of_int 5)"
    "\<not> ctx_available \<lparr>ctx_available = False, getImageData = (\<lambda>_. [255])\<rparr>
       \<or> scan_pixels (getImageData \<lparr>ctx_available = False, getImageData = (\<lambda>_. [255])\<rparr>
            (map of_char (String_of_int 5))) = []"
    by simp_all
  from degenerate_glyph[OF h, of 10 "\<lambda>_. 1 / 2" 0]
  show ?thesis by (simp add: numeral_eq_Suc)
qed

section \<open>The pyramid\<close>

text \<open>
  C3. The folding does not keep the fourth coefficient from being negative: for the
  draws \<open>a = 0.5\<close>, \<open>b = 0.375\<close>, \<open>c = 0.5\<close> only the third reflection fires, the
  coefficients become \<open>0.5, 0.625, 0.5\<close> and \<open>d = -0.625\<close>, and with radius 10 the
  sampled point \<open>(-18.75, 15, 18.75)\<close> lies outside the tetrahedron, whose vertices
  have all coordinates \<open>\<plusminus>15\<close>.
\<close>

theorem pyramid_outside:
  "pyramid_coeffs (1 / 2) (3 / 8) (1 / 2) = (1 / 2, 5 / 8, 1 / 2, - 5 / 8)
   \<and> generateTargetPositions \<lparr>ctx_available = True, getImageData = (\<lambda>_. [])\<rparr> 0 0 PYRAMID 1 10
       (\<lambda>j. if j = 1 then 3 / 8 else 1 / 2) 0
       = Inr ([- 75 / 4, 15, 75 / 4], 3)"
  by (simp add: pyramid_coeffs_def shape_point_def generateTargetPositions_def
      Float32Array_new_def shape_loop.simps numeral_eq_Suc)

section \<open>Reallocation on a change of the particle count\<close>

lemma color_loop_result:
  "length (color_loop base count i colors) = length colors
   \<and> (\<forall>j. j < length colors \<longrightarrow>
         color_loop base count i colors ! j
           = (if i \<le> j div 3 \<and> int (j div 3) < count then channel base (j mod 3) else colors ! j))"
proof (induction base count i colors rule: color_loop.induct)
  case (1 base count i colors)
  show ?case
  proof (cases "int i < count")
    case False
    then show ?thesis by (subst (1 2) color_loop.simps) auto
  next
    case True
    define colors1 where
      "colors1 = colors[i * 3 := col_r base, i * 3 + 1 := col_g base, i * 3 + 2 := col_b base]"
    have step: "color_loop base count i colors = color_loop base count (Suc i) colors1"
      using True by (subst color_loop.simps) (simp add: colors1_def)
    have len1: "length colors1 = length colors" by (simp add: colors1_def)
    from "1.IH"[OF True] have
      ih_len: "length (color_loop base count (Suc i) colors1) = length colors1"
      and ih: "\<And>j. j < length colors1 \<Longrightarrow>
         color_loop base count (Suc i) colors1 ! j
           = (if Suc i \<le> j div 3 \<and> int (j div 3) < count then channel base (j mod 3) else colors1 ! j)"
      by (simp_all add: colors1_def)
    have at: "\<And>j. j < length colors \<Longrightarrow>
        colors1 ! j = (if j div 3 = i then channel base (j mod 3) else colors ! j)"
    proof -
      fix j assume j: "j < length colors"
      have "j = i * 3 \<or> j = i * 3 + 1 \<or> j = i * 3 + 2 \<or> j div 3 \<noteq> i"
        by presburger
      then consider "j = i * 3" | "j = i * 3 + 1" | "j = i * 3 + 2" | "j div 3 \<noteq> i"
        by blast
      note split = this
      have dm: "Suc (i * 3) div 3 = i" "Suc (i * 3) mod 3 = 1"
        "Suc (Suc (i * 3)) div 3 = i" "Suc (Suc (i * 3)) mod 3 = 2"
        by presburger+
      show "colors1 ! j = (if j div 3 = i then channel base (j mod 3) else colors ! j)"
        using split
      proof cases
        case 1 then show ?thesis using j by (simp add: colors1_def channel_def)
      next
        case 2 then show ?thesis using j dm by (simp add: colors1_def channel_def)
      next
        case 3 then show ?thesis using j dm by (simp add: colors1_def channel_def)
      next
        case 4
        then have "j \<noteq> i * 3" "j \<noteq> i * 3 + 1" "j \<noteq> i * 3 + 2" by auto
        then show ?thesis using 4 by (simp add: colors1_def)
      qed
    qed
    have "\<And>j. j < length colors \<Longrightarrow>
         color_loop base count (Suc i) colors1 ! j
           = (if i \<le> j div 3 \<and> int (j div 3) < count then channel base (j mod 3) else colors ! j)"
    proof -
      fix j assume j: "j < length colors"
      show "color_loop base count (Suc i) colors1 ! j
           = (if i \<le> j div 3 \<and> int (j div 3) < count then channel base (j mod 3) else colors ! j)"
      proof (cases "j div 3 = i")
        case True
        then show ?thesis using ih[of j] at[OF j] j len1 \<open>int i < count\<close> by simp
      next
        case False
        then have "(Suc i \<le> j div 3) = (i \<le> j div 3)" by linarith
        then show ?thesis using ih[of j] at[OF j] j len1 False by simp
      qed
    qed
    then show ?thesis
      unfolding step using ih_len len1 by simp

  qed
qed


text \<open>
  C7, as the code has it. A render with a changed particle count that is not negative
  reallocates the four arrays at \<open>3 * count\<close> numbers, sets every velocity component to
  zero, fills the colors with the base color, samples the target from the active
  formation, and samples the current positions from the explosion formation
  \<open>BIG_BANG\<close>, whatever the active formation is.
\<close>

theorem resize_result:
  assumes "0 \<le> particleCount p" "unit_draws rnd"
  shows "\<exists>current k1 target k2 colors.
      generateTargetPositions env (charIndex p) (numIndex p) BIG_BANG (particleCount p) 10 rnd k
        = Inr (current, k1)
    \<and> generateTargetPositions env (charIndex p) (numIndex p) (shape p) (particleCount p) 10 rnd k1
        = Inr (target, k2)
    \<and> resize env p rnd k s
        = Inr (s\<lparr>currentPositionsRef := Some current,
                 velocitiesRef := Some (replicate (3 * nat (particleCount p)) 0),
                 targetPositionsRef := Some target,
                 colorAttr := colors\<rparr>, k2)
    \<and> length current = 3 * nat (particleCount p)
    \<and> length target = 3 * nat (particleCount p)
    \<and> length colors = 3 * nat (particleCount p)
    \<and> (\<forall>j < 3 * nat (particleCount p). colors ! j = channel (threeColorBase p) (j mod 3))"
proof -
  define n where "n = nat (particleCount p)"
  have len: "nat (particleCount p * 3) = 3 * n"
    using assms(1) by (simp add: nat_mult_distrib n_def)
  from generateTargetPositions_total[OF assms, of env "charIndex p" "numIndex p" BIG_BANG 10 k]
  obtain current k1 where
    cur: "generateTargetPositions env (charIndex p) (numIndex p) BIG_BANG (particleCount p) 10 rnd k
        = Inr (current, k1)"
    and lcur: "length current = 3 * n"
    unfolding n_def by (elim exE conjE)
  from generateTargetPositions_total[OF assms, of env "charIndex p" "numIndex p" "shape p" 10 k1]
  obtain target k2 where
    tgt: "generateTargetPositions env (charIndex p) (numIndex p) (shape p) (particleCount p) 10 rnd k1
        = Inr (target, k2)"
    and ltgt: "length target = 3 * n"
    unfolding n_def by (elim exE conjE)
  define colors where
    "colors = color_loop (threeColorBase p) (particleCount p) 0 (replicate (3 * n) 0)"
  have lcol: "length colors = 3 * n"
    using color_loop_result[of "threeColorBase p" "particleCount p" 0 "replicate (3 * n) 0"]
    by (simp add: colors_def)
  have col: "\<forall>j < 3 * n. colors ! j = channel (threeColorBase p) (j mod 3)"
  proof (intro allI impI)
    fix j assume j: "j < 3 * n"
    then have "int (j div 3) < particleCount p" unfolding n_def by linarith
    then show "colors ! j = channel (threeColorBase p) (j mod 3)"
      using color_loop_result[of "threeColorBase p" "particleCount p" 0 "replicate (3 * n) 0"] j
      by (simp add: colors_def)
  qed
  have "resize env p rnd k s
        = Inr (s\<lparr>currentPositionsRef := Some current,
                 velocitiesRef := Some (replicate (3 * n) 0),
                 targetPositionsRef := Some target,
                 colorAttr := colors\<rparr>, k2)"
    using cur tgt assms(1) len
    by (simp add: resize_def initialization_def core_geometry_setup_def Float32Array_new_def
        Let_def colors_def)
  then show ?thesis
    using cur tgt lcur ltgt lcol col unfolding n_def by blast
qed

theorem resize_result_witness:
  "\<exists>current k1 target k2 colors.
      resize \<lparr>ctx_available = False, getImageData = (\<lambda>_. [])\<rparr>
        \<lparr>shape = CUBE, threeColorBase = \<lparr>col_r = 0, col_g = 1, col_b = 1\<rparr>,
         particleCount = 2, charIndex = 0, numIndex = 0\<rparr> (\<lambda>_. 1 / 2) 0
        \<lparr>pointsRef = False, targetPositionsRef = None, currentPositionsRef = None,
         velocitiesRef = None, colorAttr = []\<rparr>
        = Inr (\<lparr>pointsRef = False, targetPositionsRef = Some target,
                currentPositionsRef = Some current,
                velocitiesRef = Some [0, 0, 0, 0, 0, 0], colorAttr = colors\<rparr>, k2)
    \<and> length current = 6 \<and> length target = 6 \<and> length colors = 6 \<and> colors ! 4 = 1"
proof -
  define p :: props where "p = \<lparr>shape = CUBE, threeColorBase = \<lparr>col_r = 0, col_g = 1, col_b = 1\<rparr>,
         particleCount = 2, charIndex = 0, numIndex = 0\<rparr>"
  have h: "0 \<le> particleCount p" "unit_draws (\<lambda>_. 1 / 2)"
    by (simp_all add: p_def unit_draws_def)
  from resize_result[OF h, of "\<lparr>ctx_available = False, getImageData = (\<lambda>_. [])\<rparr>" 0
      "\<lparr>pointsRef = False, targetPositionsRef = None, currentPositionsRef = None,
         velocitiesRef = None, colorAttr = []\<rparr>"]
  obtain current k1 target k2 colors where
    rs: "resize \<lparr>ctx_available = False, getImageData = (\<lambda>_. [])\<rparr> p (\<lambda>_. 1 / 2) 0
        \<lparr>pointsRef = False, targetPositionsRef = None, currentPositionsRef = None,
         velocitiesRef = None, colorAttr = []\<rparr>
        = Inr (\<lparr>pointsRef = False, targetPositionsRef = None, currentPositionsRef = None,
                velocitiesRef = None, colorAttr = []\<rparr>
               \<lparr>currentPositionsRef := Some current,
                 velocitiesRef := Some (replicate (3 * nat (particleCount p)) 0),
                 targetPositionsRef := Some target,
                 colorAttr := colors\<rparr>, k2)"
    and len: "length current = 3 * nat (particleCount p)" "length target = 3 * nat (particleCount p)"
      "length colors = 3 * nat (particleCount p)"
    and col: "\<forall>j < 3 * nat (particleCount p). colors ! j = channel (threeColorBase p) (j mod 3)"
    by (elim exE conjE)
  have "colors ! 4 = 1" using col[rule_format, of 4] by (simp add: p_def channel_def)
  with rs len show ?thesis
    unfolding p_def by (auto simp: numeral_eq_Suc)
qed

text \<open>
  C7 as stated fails: with the sphere active, one particle and every draw 0, the current
  position is allocated at the origin, while the sample of the sphere, which uses no
  draw, is \<open>(0, 0, -10)\<close>.
\<close>

theorem resize_current_counterexample:
  "resize \<lparr>ctx_available = False, getImageData = (\<lambda>_. [])\<rparr>
     \<lparr>shape = SPHERE, threeColorBase = \<lparr>col_r = 0, col_g = 1, col_b = 1\<rparr>,
      particleCount = 1, charIndex = 0, numIndex = 0\<rparr> (\<lambda>_. 0) 0
     \<lparr>pointsRef = False, targetPositionsRef = None, currentPositionsRef = None,
      velocitiesRef = None, colorAttr = []\<rparr>
   = Inr (\<lparr>pointsRef = False, targetPositionsRef = Some [0, 0, - 10],
           currentPositionsRef = Some [0, 0, 0], velocitiesRef = Some [0, 0, 0],
           colorAttr = [0, 1, 1]\<rparr>, 3)
   \<and> generateTargetPositions \<lparr>ctx_available = False, getImageData = (\<lambda>_. [])\<rparr> 0 0 SPHERE 1 10
       (\<lambda>_. 0) 0 = Inr ([0, 0, - 10], 0)"
  by (simp add: resize_def initialization_def core_geometry_setup_def generateTargetPositions_def
      Float32Array_new_def shape_loop.simps shape_point_def big_bang_point_def js_div_def
      Math_acos_def Math_sqrt_def color_loop.simps Let_def numeral_eq_Suc)


section \<open>Retargeting\<close>

text \<open>
  C6. For a count that is not negative, the shape update effect installs a freshly
  sampled target array of \<open>count\<close> triples and replaces nothing else: every
  component of the current positions and of the velocities is as before, and so are
  the colors.
\<close>

theorem retarget_frame:
  assumes "0 \<le> particleCount p" "unit_draws rnd"
  shows "\<exists>s' k' target.
      shape_update_effect env p rnd k s = Inr (s', k')
    \<and> generateTargetPositions env (charIndex p) (numIndex p) (shape p) (particleCount p) 10 rnd k
        = Inr (target, k')
    \<and> targetPositionsRef s' = Some target
    \<and> length target = 3 * nat (particleCount p)
    \<and> currentPositionsRef s' = currentPositionsRef s
    \<and> velocitiesRef s' = velocitiesRef s
    \<and> colorAttr s' = colorAttr s \<and> pointsRef s' = pointsRef s"
proof -
  from generateTargetPositions_total[OF assms, of env "charIndex p" "numIndex p" "shape p" 10 k]
  obtain target k' where
    tgt: "generateTargetPositions env (charIndex p) (numIndex p) (shape p) (particleCount p) 10 rnd k
        = Inr (target, k')"
    and len: "length target = 3 * nat (particleCount p)"
    by (elim exE conjE)
  have "shape_update_effect env p rnd k s = Inr (s\<lparr>targetPositionsRef := Some target\<rparr>, k')"
    using tgt by (simp add: shape_update_effect_def)
  then show ?thesis
    using tgt len by simp
qed

theorem retarget_frame_witness:
  "\<exists>s' k' target.
      shape_update_effect \<lparr>ctx_available = False, getImageData = (\<lambda>_. [])\<rparr>
        \<lparr>shape = TEXT, threeColorBase = \<lparr>col_r = 0, col_g = 1, col_b = 1\<rparr>,
         particleCount = 1, charIndex = 2, numIndex = 0\<rparr> (\<lambda>_. 1 / 2) 0
        \<lparr>pointsRef = True, targetPositionsRef = Some [1, 2, 3],
         currentPositionsRef = Some [4, 5, 6], velocitiesRef = Some [7, 8, 9],
         colorAttr = [0, 1, 1]\<rparr> = Inr (s', k')
    \<and> targetPositionsRef s' = Some target \<and> length target = 3
    \<and> currentPositionsRef s' = Some [4, 5, 6] \<and> velocitiesRef s' = Some [7, 8, 9]"
proof -
  define p :: props where "p = \<lparr>shape = TEXT, threeColorBase = \<lparr>col_r = 0, col_g = 1, col_b = 1\<rparr>,
         particleCount = 1, charIndex = 2, numIndex = 0\<rparr>"
  have h: "0 \<le> particleCount p" "unit_draws (\<lambda>_. 1 / 2)"
    by (simp_all add: p_def unit_draws_def)
  from retarget_frame[OF h, of "\<lparr>ctx_available = False, getImageData = (\<lambda>_. [])\<rparr>" 0
      "\<lparr>pointsRef = True, targetPositionsRef = Some [1, 2, 3],
         currentPositionsRef = Some [4, 5, 6], velocitiesRef = Some [7, 8, 9],
         colorAttr = [0, 1, 1]\<rparr>"]
  show ?thesis
    unfolding p_def by auto
qed

section \<open>Letters and digits outside their range\<close>







end
